theory Spec2Isabelle
  imports Complex_Main "HOL-Library.Word"
begin

section \<open>JavaScript strings and values\<close>

text \<open>
  A JavaScript string is modelled as a \<^typ>\<open>string\<close>: one \<^typ>\<open>char\<close> per code unit, for
  strings whose code units are all below 256. \<open>String.prototype.trim\<close> removes white space
  and line terminators from both ends; below 256 these are TAB, LF, VT, FF, CR, SPACE and
  NBSP.
\<close>

definition is_ws :: "char \<Rightarrow> bool" where
  "is_ws c = (c \<in> set [CHR 0x09, CHR 0x0A, CHR 0x0B, CHR 0x0C, CHR 0x0D, CHR 0x20, CHR 0xA0])"

definition trim :: "string \<Rightarrow> string" where
  "trim s = rev (dropWhile is_ws (rev (dropWhile is_ws s)))"

text \<open>\<open>hay.includes(needle)\<close>: \<open>needle\<close> occurs in \<open>hay\<close> as a contiguous substring.\<close>

fun includes_str :: "string \<Rightarrow> string \<Rightarrow> bool" where
  "includes_str [] needle = (needle = [])"
| "includes_str (c # cs) needle = (take (length needle) (c # cs) = needle \<or> includes_str cs needle)"

text \<open>
  The values the program handles that come from \<open>JSON.parse\<close> or from object literals.
  A number is a double, given by its 64 bits (sign, 11 bits of exponent, 52 bits of
  fraction). An object is the list of its own properties in the order in which the
  engine enumerates them; \<open>JSON.parse\<close> and object literals yield objects whose keys are
  pairwise distinct.
\<close>

datatype jsval =
    JUndefined
  | JNull
  | JBool bool
  | JNum "64 word"
  | JStr string
  | JArr "jsval list"
  | JObj "(string \<times> jsval) list"

text \<open>What a thrown exception carries: \<open>new Error(message)\<close>, or the engine's \<open>TypeError\<close>.\<close>

datatype js_error = Error string | TypeError

text \<open>
  The bits of a double without the sign are 0 for the two zeros, \<open>0x7FF0000000000000\<close>
  for the two infinities and larger than that for \<open>NaN\<close>.
\<close>

definition is_zero :: "64 word \<Rightarrow> bool" where
  "is_zero w = (take_bit 63 w = 0)"

definition is_finite :: "64 word \<Rightarrow> bool" where
  "is_finite w = (take_bit 63 w < 0x7FF0000000000000)"

definition is_NaN :: "64 word \<Rightarrow> bool" where
  "is_NaN w = (0x7FF0000000000000 < take_bit 63 w)"

text \<open>\<open>ToBoolean\<close>, as used by \<open>if\<close>, \<open>!\<close>, \<open>||\<close>: of the numbers, the zeros and \<open>NaN\<close> are falsy.\<close>

fun truthy :: "jsval \<Rightarrow> bool" where
  "truthy JUndefined = False"
| "truthy JNull = False"
| "truthy (JBool b) = b"
| "truthy (JNum n) = (\<not> is_zero n \<and> \<not> is_NaN n)"
| "truthy (JStr s) = (s \<noteq> [])"
| "truthy (JArr xs) = True"
| "truthy (JObj kvs) = True"

text \<open>\<open>a || b\<close> and \<open>a ?? b\<close>.\<close>

definition or_else :: "jsval \<Rightarrow> jsval \<Rightarrow> jsval" where
  "or_else a b = (if truthy a then a else b)"

definition nullish :: "jsval \<Rightarrow> jsval \<Rightarrow> jsval" where
  "nullish a b = (if a = JUndefined \<or> a = JNull then b else a)"

text \<open>
  \<open>x.k\<close> for a value \<open>x\<close> that is neither \<open>null\<close> nor \<open>undefined\<close> (on those the access
  throws, which each caller models itself) and for a name \<open>k\<close> that no built-in prototype
  defines: the own property of an object, \<open>undefined\<close> otherwise. The program reads only
  such names (\<open>uid\<close>, \<open>products\<close>, \<open>settings\<close>, \<open>defaultRef\<close>, ...).
\<close>

fun get_prop :: "jsval \<Rightarrow> string \<Rightarrow> jsval" where
  "get_prop (JObj kvs) k = (case map_of kvs k of Some v \<Rightarrow> v | None \<Rightarrow> JUndefined)"
| "get_prop x k = JUndefined"

text \<open>Decimal digits of a natural number, as array indices and integers print.\<close>

fun decimal :: "nat \<Rightarrow> string" where
  "decimal n = (if n < 10 then [char_of (48 + n)] else decimal (n div 10) @ [char_of (48 + n mod 10)])"

declare decimal.simps [simp del]

text \<open>
  \<open>Array.prototype.join(sep)\<close> on strings.
\<close>

fun join :: "string \<Rightarrow> string list \<Rightarrow> string" where
  "join sep [] = []"
| "join sep [x] = x"
| "join sep (x # y # ys) = x @ sep @ join sep (y # ys)"

text \<open>
  What the browser supplies. \<open>URL_new s\<close> is \<open>new URL(s)\<close>, \<open>None\<close> when the constructor
  throws; \<open>URLSearchParams_get search name\<close> is \<open>new URLSearchParams(search).get(name)\<close>, \<open>None\<close>
  for \<open>null\<close>; \<open>Number_toString\<close> prints a number as string conversion does;
  \<open>localeCompare a b\<close> is \<open>a.localeCompare(b)\<close>. The program is verified for every such
  platform.
\<close>

record url =
  hostname :: string
  search :: string

record platform =
  URL_new :: "string \<Rightarrow> url option"
  URLSearchParams_get :: "string \<Rightarrow> string \<Rightarrow> string option"
  Number_toString :: "64 word \<Rightarrow> string"
  localeCompare :: "string \<Rightarrow> string \<Rightarrow> int"

text \<open>
  \<open>ToString\<close>, as a template literal applies it to an interpolated value. An object is
  converted by its \<open>toString\<close>: the inherited one gives \<open>[object Object]\<close>; an own property
  of that name hides it and, being data, cannot be called, and neither \<open>valueOf\<close> gives a
  primitive, so the conversion throws a \<open>TypeError\<close>. An array is converted by \<open>join\<close>,
  which converts each element other than \<open>undefined\<close> and \<open>null\<close>.
\<close>

fun ToString :: "platform \<Rightarrow> jsval \<Rightarrow> js_error + string"
  and ToString_elems :: "platform \<Rightarrow> jsval list \<Rightarrow> js_error + string list" where
  "ToString P JUndefined = Inr ''undefined''"
| "ToString P JNull = Inr ''null''"
| "ToString P (JBool b) = Inr (if b then ''true'' else ''false'')"
| "ToString P (JNum n) = Inr (Number_toString P n)"
| "ToString P (JStr s) = Inr s"
| "ToString P (JArr xs) =
     (case ToString_elems P xs of Inl e \<Rightarrow> Inl e | Inr ss \<Rightarrow> Inr (join '','' ss))"
| "ToString P (JObj kvs) =
     (if ''toString'' \<in> fst ` set kvs then Inl TypeError else Inr ''[object Object]'')"
| "ToString_elems P [] = Inr []"
| "ToString_elems P (x # xs) =
     (case (if x = JUndefined \<or> x = JNull then Inr [] else ToString P x) of
        Inl e \<Rightarrow> Inl e
      | Inr s \<Rightarrow> (case ToString_elems P xs of Inl e \<Rightarrow> Inl e | Inr ss \<Rightarrow> Inr (s # ss)))"

section \<open>Constants\<close>

text \<open>\<open>SCHEMA_VERSION = 2\<close>, as a double.\<close>

definition SCHEMA_VERSION :: "64 word" where
  "SCHEMA_VERSION = 0x4000000000000000"

definition LISTS :: "string list" where
  "LISTS = [''Wishlist'', ''To Buy'', ''Ordered'', ''Received'', ''Archived'']"

definition DEFAULT_SETTINGS :: "(string \<times> jsval) list" where
  "DEFAULT_SETTINGS =
     [(''defaultRef'', JStr ''200084174''),
      (''defaultList'', JStr ''Wishlist''),
      (''compactCards'', JBool False)]"

section \<open>URL conversion\<close>

text \<open>The messages of the four kinds of parse failure, as \<open>parseShopUrl\<close> throws them.\<close>

definition EmptyInput :: string where
  "EmptyInput = ''URL manquante.''"

definition MalformedUrl :: string where
  "MalformedUrl = ''URL invalide.''"

definition MissingItemId_weidian :: string where
  "MissingItemId_weidian = ''itemID manquant pour Weidian.''"

definition MissingItemId_taobao :: string where
  "MissingItemId_taobao = ''id manquant pour Taobao.''"

definition UnsupportedDomain :: string where
  "UnsupportedDomain = ''Domaine non support'' @ [CHR 0xE9] @ '' (weidian.com ou taobao.com).''"

text \<open>
  \<open>parseShopUrl(raw)\<close>. \<open>raw\<close> is \<open>None\<close> for \<open>undefined\<close> or \<open>null\<close> (\<open>raw?.trim()\<close>). The
  result is the pair \<open>(shop_type, id)\<close> of the returned object.
\<close>

definition parseShopUrl :: "platform \<Rightarrow> string option \<Rightarrow> js_error + (string \<times> string)" where
  "parseShopUrl P raw =
     (case map_option trim raw of
        None \<Rightarrow> Inl (Error EmptyInput)
      | Some s \<Rightarrow>
          if s = [] then Inl (Error EmptyInput)
          else
            (case URL_new P s of
               None \<Rightarrow> Inl (Error MalformedUrl)
             | Some u \<Rightarrow>
                 if includes_str (hostname u) ''weidian.com'' then
                   (case URLSearchParams_get P (search u) ''itemID'' of
                      None \<Rightarrow> Inl (Error MissingItemId_weidian)
                    | Some itemID \<Rightarrow>
                        if itemID = [] then Inl (Error MissingItemId_weidian)
                        else Inr (''weidian'', itemID))
                 else if includes_str (hostname u) ''taobao.com'' then
                   (case URLSearchParams_get P (search u) ''id'' of
                      None \<Rightarrow> Inl (Error MissingItemId_taobao)
                    | Some i \<Rightarrow>
                        if i = [] then Inl (Error MissingItemId_taobao)
                        else Inr (''taobao'', i))
                 else Inl (Error UnsupportedDomain)))"

text \<open>
  \<open>toMulebuy({ shop_type, id, ref })\<close>, the three properties as \<open>shop\<close>, \<open>i\<close> and \<open>rf\<close>. A
  missing \<open>ref\<close> is \<open>JUndefined\<close>. Calling \<open>.trim()\<close>
  on a truthy value that is not a string throws a \<open>TypeError\<close>, and so does a shop type
  or an id that has no string conversion.
\<close>

definition toMulebuy :: "platform \<Rightarrow> jsval \<Rightarrow> jsval \<Rightarrow> jsval \<Rightarrow> js_error + string" where
  "toMulebuy P shop i rf =
     (case or_else rf (get_prop (JObj DEFAULT_SETTINGS) ''defaultRef'') of
        JStr r0 \<Rightarrow>
          (let r = trim r0 in
           case ToString P shop of
             Inl e \<Rightarrow> Inl e
           | Inr s \<Rightarrow>
               (case ToString P i of
                  Inl e \<Rightarrow> Inl e
                | Inr t \<Rightarrow>
                    Inr (''https://mulebuy.com/product/?shop_type='' @ s
                         @ ''&id='' @ t @ ''&ref='' @ r)))
      | _ \<Rightarrow> Inl TypeError)"

text \<open>
  A small platform to run the model on concrete inputs. It agrees with the browser on
  lower-case ASCII URLs \<open>scheme://host/path?query\<close> without user info, port, escapes or
  fragment, on query strings without escapes, and on the number 0; no theorem about the
  program depends on it.
\<close>

definition sample_URL_new :: "string \<Rightarrow> url option" where
  "sample_URL_new s =
     (let scheme = takeWhile (\<lambda>c. c \<noteq> CHR '':'') s;
          rest = drop (length scheme) s;
          r = drop 3 rest;
          host = takeWhile (\<lambda>c. c \<notin> set ''/?#'') r;
          r2 = drop (length host) r;
          path = takeWhile (\<lambda>c. c \<notin> set ''?#'') r2;
          r3 = drop (length path) r2;
          query = (if take 1 r3 = ''?'' then takeWhile (\<lambda>c. c \<noteq> CHR ''#'') (drop 1 r3) else [])
      in if scheme = [] \<or> list_ex (\<lambda>c. c \<notin> set ''abcdefghijklmnopqrstuvwxyz'') scheme
            \<or> take 3 rest \<noteq> ''://'' \<or> host = []
            \<or> list_ex (\<lambda>c. c \<notin> set ''abcdefghijklmnopqrstuvwxyz0123456789.-'') host
         then None
         else Some \<lparr>hostname = host, search = (if query = [] then [] else CHR ''?'' # query)\<rparr>)"

fun split_on :: "char \<Rightarrow> string \<Rightarrow> string list" where
  "split_on d [] = [[]]"
| "split_on d (c # cs) =
     (if c = d then [] # split_on d cs
      else (case split_on d cs of [] \<Rightarrow> [[c]] | w # ws \<Rightarrow> (c # w) # ws))"

definition sample_URLSearchParams_get :: "string \<Rightarrow> string \<Rightarrow> string option" where
  "sample_URLSearchParams_get s name =
     (let q = (if take 1 s = ''?'' then drop 1 s else s);
          pairs = map (\<lambda>w. (takeWhile (\<lambda>c. c \<noteq> CHR ''='') w,
                             drop 1 (dropWhile (\<lambda>c. c \<noteq> CHR ''='') w)))
                      (filter (\<lambda>w. w \<noteq> []) (split_on CHR ''&'' q))
      in map_of pairs name)"

definition sample_localeCompare :: "string \<Rightarrow> string \<Rightarrow> int" where
  "sample_localeCompare a b =
     (if a = b then 0 else if (map of_char a :: nat list, map of_char b) \<in> lexord {(x, y). x < y} then - 1 else 1)"

definition sample_platform :: platform where
  "sample_platform =
     \<lparr>URL_new = sample_URL_new,
      URLSearchParams_get = sample_URLSearchParams_get,
      Number_toString = (\<lambda>n. if n = 0 then ''0'' else ''NaN''),
      localeCompare = sample_localeCompare\<rparr>"

section \<open>Conversion history\<close>

text \<open>
  The part of the component state that \<open>handleConvert\<close> reads and writes: the URL field,
  the referral field (the state variable \<open>ref\<close>), the last conversion (\<open>JNull\<close> when none),
  the error shown (\<open>None\<close> for the empty message) and the history, an array.
\<close>

record converter =
  inputUrl :: string
  ref_input :: string
  conv :: jsval
  convErr :: "js_error option"
  history :: "jsval list"

text \<open>
  The entry \<open>{ id: uid(), ts: now, input: inputUrl, ...parsed, ref, out: url }\<close>. The spread
  of \<open>parsed\<close> comes after \<open>id: uid()\<close> and \<open>parsed\<close> has an \<open>id\<close> of its own, so the entry's
  \<open>id\<close> is the item id and the generated one is dropped.
\<close>

definition history_entry :: "string \<Rightarrow> string \<Rightarrow> string \<Rightarrow> string \<Rightarrow> string \<Rightarrow> string \<Rightarrow> jsval" where
  "history_entry now inp shop i rf out =
     JObj [(''id'', JStr i), (''ts'', JStr now), (''input'', JStr inp),
           (''shop_type'', JStr shop), (''ref'', JStr rf), (''out'', JStr out)]"

text \<open>\<open>handleConvert()\<close>; \<open>now\<close> is \<open>new Date().toISOString()\<close>.\<close>

definition handleConvert :: "platform \<Rightarrow> string \<Rightarrow> converter \<Rightarrow> converter" where
  "handleConvert P now st =
     (let st0 = st\<lparr>conv := JNull, convErr := None\<rparr> in
      case parseShopUrl P (Some (inputUrl st)) of
        Inl e \<Rightarrow> st0\<lparr>convErr := Some e\<rparr>
      | Inr (shop, i) \<Rightarrow>
          (case toMulebuy P (JStr shop) (JStr i) (JStr (ref_input st)) of
             Inl e \<Rightarrow> st0\<lparr>convErr := Some e\<rparr>
           | Inr out \<Rightarrow>
               st0\<lparr>conv := JObj [(''url'', JStr out), (''shop_type'', JStr shop),
                                (''id'', JStr i), (''ref'', JStr (ref_input st))],
                   history := take 400 (history_entry now (inputUrl st) shop i (ref_input st) out
                                        # history st)\<rparr>))"

text \<open>
  One conversion by the user: the two fields are filled in and the button is pressed at
  time \<open>c_now\<close>. A run of conversions is their sequence, oldest first.
\<close>

record conversion =
  c_input :: string
  c_ref :: string
  c_now :: string

definition convert :: "platform \<Rightarrow> converter \<Rightarrow> conversion \<Rightarrow> converter" where
  "convert P st c = handleConvert P (c_now c) (st\<lparr>inputUrl := c_input c, ref_input := c_ref c\<rparr>)"

definition conversions :: "platform \<Rightarrow> conversion list \<Rightarrow> converter \<Rightarrow> converter" where
  "conversions P cs st = foldl (convert P) st cs"

text \<open>The history entry a successful conversion adds.\<close>

definition entry_of :: "platform \<Rightarrow> conversion \<Rightarrow> jsval" where
  "entry_of P c =
     (case parseShopUrl P (Some (c_input c)) of
        Inr (shop, i) \<Rightarrow>
          (case toMulebuy P (JStr shop) (JStr i) (JStr (c_ref c)) of
             Inr out \<Rightarrow> history_entry (c_now c) (c_input c) shop i (c_ref c) out
           | Inl e \<Rightarrow> JUndefined)
      | Inl e \<Rightarrow> JUndefined)"

definition succeeds :: "platform \<Rightarrow> conversion \<Rightarrow> bool" where
  "succeeds P c = (case parseShopUrl P (Some (c_input c)) of Inr r \<Rightarrow> True | Inl e \<Rightarrow> False)"

section \<open>Products and bulk operations\<close>

text \<open>
  A product as \<open>newProductFromConv\<close> and \<open>newBlankProduct\<close> build it. The fields \<open>list\<close>,
  \<open>id\<close>, \<open>ref\<close>, \<open>size\<close>, \<open>notes\<close> and \<open>_v\<close> carry a prime (\<open>list'\<close>, \<open>id'\<close>, ...; \<open>_v\<close> is \<open>v'\<close>).
\<close>

record product =
  uid :: string
  created_at :: string
  list' :: string
  shop_type :: string
  id' :: string
  ref' :: string
  mulebuy_url :: string
  title :: string
  seller :: string
  size' :: string
  price :: string
  rating :: nat
  notes' :: string
  tags :: "string list"
  qc_links :: "string list"
  images :: "string list"
  v' :: nat

text \<open>
  \<open>bulkMove(listName)\<close> on the products and the selection (a \<open>Set\<close> of uids); it returns
  both, the selection cleared by \<open>clearSelection()\<close>.
\<close>

definition bulkMove :: "string \<Rightarrow> product list \<times> string set \<Rightarrow> product list \<times> string set" where
  "bulkMove listName st =
     (case st of (products, selection) \<Rightarrow>
        if selection = {} then (products, selection)
        else (map (\<lambda>p. if uid p \<in> selection then p\<lparr>list' := listName\<rparr> else p) products, {}))"

text \<open>
  \<open>Array.from(new Set(xs))\<close>: the elements of \<open>xs\<close> in order, each kept at its first
  occurrence only.
\<close>

definition Array_from_Set :: "'a list \<Rightarrow> 'a list" where
  "Array_from_Set xs = foldl (\<lambda>acc x. if x \<in> set acc then acc else acc @ [x]) [] xs"

text \<open>\<open>bulkAddTag(tag)\<close>; the selection is left as it is.\<close>

definition bulkAddTag :: "string \<Rightarrow> product list \<times> string set \<Rightarrow> product list \<times> string set" where
  "bulkAddTag tag st =
     (case st of (products, selection) \<Rightarrow>
        if tag = [] then (products, selection)
        else (map (\<lambda>p. if uid p \<in> selection
                         then p\<lparr>tags := Array_from_Set (tags p @ [tag])\<rparr> else p) products,
              selection))"

text \<open>
  The bulk bar's button, the only caller of \<open>bulkAddTag\<close>:
  \<open>if (tag.trim()) onAddTag(tag.trim())\<close>, with the text typed into the bar as \<open>tag\<close>.
\<close>

definition AddTag :: "string \<Rightarrow> product list \<times> string set \<Rightarrow> product list \<times> string set" where
  "AddTag tag st = (if trim tag \<noteq> [] then bulkAddTag (trim tag) st else st)"

section \<open>Sorting\<close>

text \<open>
  A JavaScript number: not-a-number, the infinities, or a finite value (kept exact, the
  rounding to a double is not modelled).
\<close>

datatype jsnum = NaN | Fin rat | PosInf | NegInf

text \<open>\<open>a - b\<close> on numbers.\<close>

fun minus_num :: "jsnum \<Rightarrow> jsnum \<Rightarrow> jsnum" where
  "minus_num NaN y = NaN"
| "minus_num x NaN = NaN"
| "minus_num (Fin a) (Fin b) = Fin (a - b)"
| "minus_num (Fin a) PosInf = NegInf"
| "minus_num (Fin a) NegInf = PosInf"
| "minus_num PosInf PosInf = NaN"
| "minus_num PosInf y = PosInf"
| "minus_num NegInf NegInf = NaN"
| "minus_num NegInf y = NegInf"

text \<open>
  \<open>Number(s)\<close> for a string: white space is trimmed, the empty string is 0, then a binary,
  octal or hexadecimal integer literal, or a signed decimal literal with optional fraction
  and exponent, or a signed \<open>Infinity\<close>; anything else is \<open>NaN\<close>.
\<close>

definition digit_of :: "char \<Rightarrow> nat option" where
  "digit_of c =
     (let n = (of_char c :: nat) in
      if 48 \<le> n \<and> n \<le> 57 then Some (n - 48)
      else if 97 \<le> n \<and> n \<le> 102 then Some (n - 87)
      else if 65 \<le> n \<and> n \<le> 70 then Some (n - 55)
      else None)"

definition is_digit :: "nat \<Rightarrow> char \<Rightarrow> bool" where
  "is_digit b c = (case digit_of c of Some d \<Rightarrow> d < b | None \<Rightarrow> False)"

definition radix_val :: "nat \<Rightarrow> string \<Rightarrow> nat" where
  "radix_val b ds = foldl (\<lambda>acc c. acc * b + (case digit_of c of Some d \<Rightarrow> d | None \<Rightarrow> 0)) 0 ds"

definition radix_literal :: "nat \<Rightarrow> string \<Rightarrow> jsnum" where
  "radix_literal b ds =
     (if ds \<noteq> [] \<and> list_all (is_digit b) ds then Fin (of_nat (radix_val b ds)) else NaN)"

definition pow10 :: "int \<Rightarrow> rat" where
  "pow10 e = (if 0 \<le> e then 10 ^ nat e else 1 / 10 ^ nat (- e))"

definition exponent_part :: "string \<Rightarrow> int option" where
  "exponent_part s =
     (if s = [] then Some 0
      else if hd s = CHR ''e'' \<or> hd s = CHR ''E'' then
        (let r = tl s;
             neg = (take 1 r = ''-'');
             ds = (if take 1 r = ''-'' \<or> take 1 r = ''+'' then drop 1 r else r)
         in if ds \<noteq> [] \<and> list_all (is_digit 10) ds
            then Some (if neg then - int (radix_val 10 ds) else int (radix_val 10 ds))
            else None)
      else None)"

definition unsigned_decimal :: "string \<Rightarrow> rat option" where
  "unsigned_decimal s =
     (let ip = takeWhile (is_digit 10) s;
          r = drop (length ip) s;
          fp = (if take 1 r = ''.'' then takeWhile (is_digit 10) (drop 1 r) else []);
          r2 = (if take 1 r = ''.'' then drop (1 + length fp) r else r)
      in if ip = [] \<and> fp = [] then None
         else (case exponent_part r2 of
                 None \<Rightarrow> None
               | Some e \<Rightarrow>
                   Some ((of_nat (radix_val 10 ip) + of_nat (radix_val 10 fp) * pow10 (- int (length fp)))
                         * pow10 e)))"

definition Number_of_string :: "string \<Rightarrow> jsnum" where
  "Number_of_string s =
     (let t = trim s in
      if t = [] then Fin 0
      else if take 2 t = ''0x'' \<or> take 2 t = ''0X'' then radix_literal 16 (drop 2 t)
      else if take 2 t = ''0o'' \<or> take 2 t = ''0O'' then radix_literal 8 (drop 2 t)
      else if take 2 t = ''0b'' \<or> take 2 t = ''0B'' then radix_literal 2 (drop 2 t)
      else
        (let neg = (take 1 t = ''-'');
             u = (if take 1 t = ''-'' \<or> take 1 t = ''+'' then drop 1 t else t)
         in if u = ''Infinity'' then (if neg then NegInf else PosInf)
            else (case unsigned_decimal u of
                    None \<Rightarrow> NaN
                  | Some q \<Rightarrow> Fin (if neg then - q else q))))"

text \<open>\<open>Number(p.price || 0)\<close>: the empty string is falsy, so \<open>Number(0)\<close>.\<close>

definition price_number :: "product \<Rightarrow> jsnum" where
  "price_number p = (if price p = [] then Fin 0 else Number_of_string (price p))"

text \<open>
  \<open>bySort(sortId)\<close>, the comparator handed to \<open>Array.prototype.sort\<close>. The fields are
  strings, on which \<open>x || ""\<close> is \<open>x\<close>.
\<close>

definition bySort :: "platform \<Rightarrow> string \<Rightarrow> product \<Rightarrow> product \<Rightarrow> jsnum" where
  "bySort P sortId a b =
     (if sortId = ''created_at_desc'' then Fin (of_int (localeCompare P (created_at b) (created_at a)))
      else if sortId = ''created_at_asc'' then Fin (of_int (localeCompare P (created_at a) (created_at b)))
      else if sortId = ''title_asc'' then Fin (of_int (localeCompare P (title a) (title b)))
      else if sortId = ''title_desc'' then Fin (of_int (localeCompare P (title b) (title a)))
      else if sortId = ''price_asc'' then minus_num (price_number a) (price_number b)
      else if sortId = ''price_desc'' then minus_num (price_number b) (price_number a)
      else if sortId = ''shop_type'' then Fin (of_int (localeCompare P (shop_type a) (shop_type b)))
      else Fin 0)"

text \<open>
  How \<open>Array.prototype.sort\<close> reads the comparator's result \<open>v\<close> for a pair: \<open>NaN\<close> counts
  as \<open>+0\<close>; a negative value puts the first argument first, a positive one the second,
  zero leaves the two in their order.
\<close>

definition SortCompare :: "(product \<Rightarrow> product \<Rightarrow> jsnum) \<Rightarrow> product \<Rightarrow> product \<Rightarrow> jsnum" where
  "SortCompare comparefn x y = (case comparefn x y of NaN \<Rightarrow> Fin 0 | v \<Rightarrow> v)"

section \<open>Storage and migration\<close>

text \<open>
  A stored string is either text that \<open>JSON.parse\<close> rejects or text that denotes a JSON
  value. \<open>jsonify v\<close> is the value that the text \<open>JSON.stringify(v)\<close> denotes: a property
  whose value is \<open>undefined\<close> is left out, \<open>undefined\<close> inside an array becomes \<open>null\<close>, a
  number that is not finite is written \<open>null\<close> and the negative zero is written \<open>0\<close>.
  \<open>JSON.stringify(undefined)\<close> is \<open>undefined\<close>, which is stored as the text \<open>undefined\<close>.
\<close>

datatype item = Unparseable | Json jsval

fun jsonify :: "jsval \<Rightarrow> jsval"
  and jsonify_elems :: "jsval list \<Rightarrow> jsval list"
  and jsonify_props :: "(string \<times> jsval) list \<Rightarrow> (string \<times> jsval) list" where
  "jsonify (JArr xs) = JArr (jsonify_elems xs)"
| "jsonify (JObj kvs) = JObj (jsonify_props kvs)"
| "jsonify JUndefined = JUndefined"
| "jsonify JNull = JNull"
| "jsonify (JBool b) = JBool b"
| "jsonify (JNum n) = (if \<not> is_finite n then JNull else if is_zero n then JNum 0 else JNum n)"
| "jsonify (JStr s) = JStr s"
| "jsonify_elems [] = []"
| "jsonify_elems (x # xs) = (if x = JUndefined then JNull else jsonify x) # jsonify_elems xs"
| "jsonify_props [] = []"
| "jsonify_props (kv # kvs) =
     (if snd kv = JUndefined then jsonify_props kvs
      else (fst kv, jsonify (snd kv)) # jsonify_props kvs)"

definition stringify :: "jsval \<Rightarrow> item" where
  "stringify v = (if v = JUndefined then Unparseable else Json (jsonify v))"

text \<open>
  \<open>localStorage\<close>: the stored strings by key, and the keys of the \<open>setItem\<close> calls made so
  far, oldest first, whether the browser carried them out or not.
\<close>

record localStorage =
  items :: "string \<Rightarrow> item option"
  setItem_log :: "string list"

definition LS_products :: string where
  "LS_products = ''mulebuy.products.v2''"

definition LS_settings :: string where
  "LS_settings = ''mulebuy.settings.v2''"

definition LS_history :: string where
  "LS_history = ''mulebuy.history.v2''"

definition LS_legacySaved :: string where
  "LS_legacySaved = ''mulebuy.saved.v1''"

definition LS_legacyHistory :: string where
  "LS_legacyHistory = ''mulebuy.history.v1''"

text \<open>
  What a run is given from outside: the identifier and the time stamp that the legacy
  entry at each index would draw, and the calls of \<open>getItem\<close> and \<open>setItem\<close> that the
  browser makes throw during the run (a disabled store, a full store). A run reads and
  writes each key at most once.
\<close>

record env =
  fresh_uid :: "nat \<Rightarrow> string"
  clock :: "nat \<Rightarrow> string"
  getItem_throws :: "string \<Rightarrow> bool"
  setItem_throws :: "string \<Rightarrow> item \<Rightarrow> bool"

text \<open>
  \<open>loadJSON(key, fallback)\<close>: \<open>getItem\<close> gives \<open>null\<close> for a missing key, which
  \<open>JSON.parse\<close> reads as \<open>null\<close>; an exception of \<open>getItem\<close> or of \<open>JSON.parse\<close> is
  caught and gives the fallback.
\<close>

definition loadJSON :: "env \<Rightarrow> localStorage \<Rightarrow> string \<Rightarrow> jsval \<Rightarrow> jsval" where
  "loadJSON e ls key fallback =
     (if getItem_throws e key then fallback
      else
        (case items ls key of
           None \<Rightarrow> fallback
         | Some Unparseable \<Rightarrow> fallback
         | Some (Json v) \<Rightarrow> nullish v fallback))"

text \<open>
  \<open>saveJSON(key, val)\<close>: an exception of \<open>setItem\<close> is caught and ignored, and the key
  keeps what it held.
\<close>

definition saveJSON :: "env \<Rightarrow> string \<Rightarrow> jsval \<Rightarrow> localStorage \<Rightarrow> localStorage" where
  "saveJSON e key val ls =
     ls\<lparr>items := (if setItem_throws e key (stringify val) then items ls
                  else (items ls)(key \<mapsto> stringify val)),
        setItem_log := setItem_log ls @ [key]\<rparr>"

text \<open>
  The record that \<open>legacy.map\<close> builds from one legacy entry \<open>x\<close>. Reading a property of
  \<open>null\<close> throws; \<open>toMulebuy\<close> is only called when \<open>x.mulebuy_url\<close> is falsy. \<open>fresh\<close> is
  what \<open>uid()\<close> returns and \<open>now\<close> what \<open>new Date().toISOString()\<close> returns for this entry.
\<close>

definition migrate_entry :: "platform \<Rightarrow> string \<Rightarrow> string \<Rightarrow> jsval \<Rightarrow> js_error + jsval" where
  "migrate_entry P fresh now x =
     (if x = JNull \<or> x = JUndefined then Inl TypeError
      else
        (case (if truthy (get_prop x ''mulebuy_url'') then Inr (get_prop x ''mulebuy_url'')
               else map_sum id JStr
                      (toMulebuy P (get_prop x ''shop_type'') (get_prop x ''id'') (get_prop x ''ref''))) of
           Inl e \<Rightarrow> Inl e
         | Inr url \<Rightarrow>
             Inr (JObj
               [(''uid'', or_else (get_prop x ''uid'') (JStr fresh)),
                (''created_at'', or_else (get_prop x ''created_at'') (JStr now)),
                (''list'', get_prop (JObj DEFAULT_SETTINGS) ''defaultList''),
                (''shop_type'', get_prop x ''shop_type''),
                (''id'', get_prop x ''id''),
                (''ref'', or_else (get_prop x ''ref'') (get_prop (JObj DEFAULT_SETTINGS) ''defaultRef'')),
                (''mulebuy_url'', url),
                (''title'', or_else (get_prop x ''title'') (JStr [])),
                (''seller'', JStr []),
                (''size'', JStr []),
                (''price'', JStr []),
                (''rating'', JNum 0),
                (''notes'', or_else (get_prop x ''notes'') (JStr [])),
                (''tags'', or_else (get_prop x ''tags'') (JArr [])),
                (''qc_links'', or_else (get_prop x ''qc_links'') (JArr [])),
                (''images'', or_else (get_prop x ''images'') (JArr [])),
                (''_v'', JNum SCHEMA_VERSION)])))"

text \<open>\<open>legacy.map(...)\<close> from index \<open>k\<close> on; the first entry that throws ends it.\<close>

fun migrate_entries :: "platform \<Rightarrow> env \<Rightarrow> nat \<Rightarrow> jsval list \<Rightarrow> js_error + jsval list" where
  "migrate_entries P e k [] = Inr []"
| "migrate_entries P e k (x # xs) =
     (case migrate_entry P (fresh_uid e k) (clock e k) x of
        Inl err \<Rightarrow> Inl err
      | Inr y \<Rightarrow>
          (case migrate_entries P e (Suc k) xs of
             Inl err \<Rightarrow> Inl err
           | Inr ys \<Rightarrow> Inr (y # ys)))"

text \<open>The object that \<open>migrateIfNeeded\<close> returns.\<close>

record boot =
  products :: jsval
  settings :: jsval
  history0 :: jsval

text \<open>
  \<open>migrateIfNeeded()\<close>: the returned object and the storage it leaves, or the exception
  it throws. Only \<open>legacy.map\<close> can throw, and it runs before the first \<open>saveJSON\<close>: a run
  that throws has called \<open>setItem\<close> not once.
\<close>

definition migrateIfNeeded :: "platform \<Rightarrow> env \<Rightarrow> localStorage \<Rightarrow> js_error + (boot \<times> localStorage)" where
  "migrateIfNeeded P e ls =
     (let prods = loadJSON e ls LS_products JNull;
          setts = nullish (loadJSON e ls LS_settings JNull) (JObj DEFAULT_SETTINGS);
          hist = nullish (loadJSON e ls LS_history JNull) (JArr [])
      in if truthy prods then Inr (\<lparr>products = prods, settings = setts, history0 = hist\<rparr>, ls)
         else
           (let legacy = loadJSON e ls LS_legacySaved JNull;
                legacyHistory = or_else (loadJSON e ls LS_legacyHistory (JArr [])) (JArr [])
            in case legacy of
                 JArr xs \<Rightarrow>
                   (case migrate_entries P e 0 xs of
                      Inl err \<Rightarrow> Inl err
                    | Inr migrated \<Rightarrow>
                        Inr (\<lparr>products = JArr migrated, settings = JObj DEFAULT_SETTINGS,
                              history0 = legacyHistory\<rparr>,
                             saveJSON e LS_history legacyHistory
                               (saveJSON e LS_products (JArr migrated) ls)))
               | _ \<Rightarrow>
                   Inr (\<lparr>products = JArr [], settings = JObj DEFAULT_SETTINGS, history0 = JArr []\<rparr>,
                        saveJSON e LS_history (JArr [])
                          (saveJSON e LS_settings (JObj DEFAULT_SETTINGS)
                             (saveJSON e LS_products (JArr []) ls)))))"

section \<open>Export and import\<close>

text \<open>The products (an array) and the settings (an object) of the component state.\<close>

record data_state =
  app_products :: "jsval list"
  app_settings :: "(string \<times> jsval) list"

text \<open>
  The export text \<open>JSON.stringify({ settings, products }, null, 2)\<close>.
\<close>

definition Export :: "data_state \<Rightarrow> item" where
  "Export st = stringify (JObj [(''settings'', JObj (app_settings st)), (''products'', JArr (app_products st))])"

text \<open>
  The own enumerable properties that an object spread \<open>...x\<close> copies: those of an object,
  the indexed elements of an array, the indexed characters of a string, none of any other
  value.
\<close>

definition own_props :: "jsval \<Rightarrow> (string \<times> jsval) list" where
  "own_props x =
     (case x of
        JObj kvs \<Rightarrow> kvs
      | JArr xs \<Rightarrow> zip (map decimal [0..<length xs]) xs
      | JStr s \<Rightarrow> zip (map decimal [0..<length s]) (map (\<lambda>c. JStr [c]) s)
      | _ \<Rightarrow> [])"

text \<open>
  Writing a property: an existing key keeps its place and takes the new value, a new key
  goes last. (The engine lists index-like keys first; that order is not modelled.)
\<close>

definition set_prop :: "(string \<times> jsval) list \<Rightarrow> string \<times> jsval \<Rightarrow> (string \<times> jsval) list" where
  "set_prop kvs kv =
     (if fst kv \<in> fst ` set kvs then map (\<lambda>old. if fst old = fst kv then kv else old) kvs
      else kvs @ [kv])"

text \<open>\<open>{ ...prev, ...x }\<close>.\<close>

definition spread :: "(string \<times> jsval) list \<Rightarrow> jsval \<Rightarrow> (string \<times> jsval) list" where
  "spread prev x = foldl set_prop prev (own_props x)"

text \<open>
  The import: \<open>reader.onload\<close> on the text of the chosen file. It ends in one of the two
  alerts. Reading \<open>data.products\<close> of \<open>null\<close> throws, which the \<open>catch\<close> reports.
\<close>

datatype alert = Import_reussi | Import_invalide

definition Import :: "item \<Rightarrow> data_state \<Rightarrow> alert \<times> data_state" where
  "Import text st =
     (case text of
        Unparseable \<Rightarrow> (Import_invalide, st)
      | Json d \<Rightarrow>
          (case d of
             JArr xs \<Rightarrow> (Import_reussi, st\<lparr>app_products := xs\<rparr>)
           | JNull \<Rightarrow> (Import_invalide, st)
           | JUndefined \<Rightarrow> (Import_invalide, st)
           | _ \<Rightarrow>
               (let st1 = (case get_prop d ''products'' of
                             JArr ps \<Rightarrow> st\<lparr>app_products := ps\<rparr>
                           | _ \<Rightarrow> st);
                    st2 = (if truthy (get_prop d ''settings'')
                           then st1\<lparr>app_settings := spread (app_settings st1) (get_prop d ''settings'')\<rparr>
                           else st1)
                in (Import_reussi, st2))))"

section \<open>Sample data\<close>

text \<open>Concrete inputs on which the theorems below are exercised.\<close>

definition sample_conversion :: "nat \<Rightarrow> conversion" where
  "sample_conversion k =
     \<lparr>c_input = ''https://weidian.com/item.html?itemID=123'', c_ref = ''R9'', c_now = decimal k\<rparr>"

definition sample_converter :: converter where
  "sample_converter =
     \<lparr>inputUrl = [], ref_input = ''200084174'', conv = JNull, convErr = None, history = []\<rparr>"

definition sample_product :: "string \<Rightarrow> string \<Rightarrow> string list \<Rightarrow> string \<Rightarrow> product" where
  "sample_product u l ts pr =
     \<lparr>uid = u, created_at = ''2024-01-01T00:00:00.000Z'', list' = l, shop_type = ''weidian'',
      id' = ''123'', ref' = ''200084174'',
      mulebuy_url = ''https://mulebuy.com/product/?shop_type=weidian&id=123&ref=200084174'',
      title = [], seller = [], size' = [], price = pr, rating = 0, notes' = [], tags = ts,
      qc_links = [], images = [], v' = 2\<rparr>"

definition sample_state :: data_state where
  "sample_state =
     \<lparr>app_products = [JObj [(''uid'', JStr ''u1''), (''list'', JStr ''Wishlist'')]],
      app_settings = DEFAULT_SETTINGS\<rparr>"

text \<open>
  Two kinds of run, with identifiers numbered from \<open>n\<close>: one during which the browser
  serves every call, and one during which it refuses every \<open>setItem\<close>.
\<close>

definition sample_env :: "nat \<Rightarrow> env" where
  "sample_env n =
     \<lparr>fresh_uid = (\<lambda>k. ''uid-'' @ decimal (n + k)), clock = (\<lambda>k. ''2024-01-01T00:00:00.000Z''),
      getItem_throws = (\<lambda>k. False), setItem_throws = (\<lambda>k v. False)\<rparr>"

definition full_store_env :: "nat \<Rightarrow> env" where
  "full_store_env n =
     \<lparr>fresh_uid = (\<lambda>k. ''uid-'' @ decimal (n + k)), clock = (\<lambda>k. ''2024-01-01T00:00:00.000Z''),
      getItem_throws = (\<lambda>k. False), setItem_throws = (\<lambda>k v. True)\<rparr>"

definition empty_storage :: localStorage where
  "empty_storage = \<lparr>items = Map.empty, setItem_log = []\<rparr>"

definition current_storage :: localStorage where
  "current_storage = \<lparr>items = [LS_products \<mapsto> Json (JArr [])], setItem_log = []\<rparr>"

definition legacy_storage :: localStorage where
  "legacy_storage =
     \<lparr>items = [LS_legacySaved \<mapsto> Json (JArr [JObj [(''shop_type'', JStr ''weidian''), (''id'', JStr ''12'')]])],
      setItem_log = []\<rparr>"

definition migrated_sample :: jsval where
  "migrated_sample =
     JObj [(''uid'', JStr ''uid-0''), (''created_at'', JStr ''2024-01-01T00:00:00.000Z''),
           (''list'', JStr ''Wishlist''), (''shop_type'', JStr ''weidian''), (''id'', JStr ''12''),
           (''ref'', JStr ''200084174''),
           (''mulebuy_url'', JStr ''https://mulebuy.com/product/?shop_type=weidian&id=12&ref=200084174''),
           (''title'', JStr []), (''seller'', JStr []), (''size'', JStr []), (''price'', JStr []),
           (''rating'', JNum 0), (''notes'', JStr []), (''tags'', JArr []), (''qc_links'', JArr []),
           (''images'', JArr []), (''_v'', JNum SCHEMA_VERSION)]"

section \<open>Facts about strings\<close>

lemma dropWhile_all: "(\<forall>x\<in>set (dropWhile Q s). Q x) \<longleftrightarrow> (\<forall>x\<in>set s. Q x)"
  by (induction s) auto

lemma trim_Nil_iff: "trim s = [] \<longleftrightarrow> list_all is_ws s"
  by (simp add: trim_def dropWhile_eq_Nil_conv list_all_iff dropWhile_all)

lemma trim_default_ref: "trim ''200084174'' = ''200084174''"
  by (simp add: trim_def is_ws_def)

lemma trim_R9: "trim ''R9'' = ''R9''"
  by (simp add: trim_def is_ws_def)

section \<open>Rendering the partner URL\<close>

lemma toMulebuy_Str:
  "toMulebuy P (JStr shop) (JStr i) (JStr rf) =
     Inr (''https://mulebuy.com/product/?shop_type='' @ shop @ ''&id='' @ i @ ''&ref=''
          @ trim (if rf = [] then ''200084174'' else rf))"
  by (simp add: toMulebuy_def or_else_def DEFAULT_SETTINGS_def)

lemma toMulebuy_Undefined:
  "toMulebuy P (JStr shop) (JStr i) JUndefined =
     Inr (''https://mulebuy.com/product/?shop_type='' @ shop @ ''&id='' @ i @ ''&ref=''
          @ trim ''200084174'')"
  by (simp add: toMulebuy_def or_else_def DEFAULT_SETTINGS_def)

text \<open>
  Claim C7. For a shop type and an item id that are strings, \<open>toMulebuy\<close> never throws. Its
  result is the fixed base URL followed by \<open>shop_type\<close>, \<open>id\<close> and \<open>ref\<close> in that order,
  with the shop type, the item id and the trimmed referral code; an empty or missing
  referral code is replaced by the default of \<open>DEFAULT_SETTINGS\<close>. For \<open>weidian\<close>, \<open>123\<close>
  and \<open>R9\<close> the URL carries \<open>ref=R9\<close>.
\<close>

theorem toMulebuy_template:
  "toMulebuy P (JStr shop) (JStr i) (JStr rf) =
     Inr (''https://mulebuy.com/product/?shop_type='' @ shop @ ''&id='' @ i @ ''&ref=''
          @ trim (if rf = [] then ''200084174'' else rf))
   \<and> toMulebuy P (JStr shop) (JStr i) JUndefined =
     Inr (''https://mulebuy.com/product/?shop_type='' @ shop @ ''&id='' @ i @ ''&ref=200084174'')
   \<and> toMulebuy P (JStr shop) (JStr i) (JStr []) =
     Inr (''https://mulebuy.com/product/?shop_type='' @ shop @ ''&id='' @ i @ ''&ref=200084174'')
   \<and> toMulebuy P (JStr ''weidian'') (JStr ''123'') (JStr ''R9'') =
     Inr ''https://mulebuy.com/product/?shop_type=weidian&id=123&ref=R9''"
  by (simp add: toMulebuy_Str toMulebuy_Undefined trim_default_ref trim_R9)

text \<open>
  Claim C10. The default that \<open>toMulebuy\<close> falls back to is the constant \<open>200084174\<close> of
  \<open>DEFAULT_SETTINGS\<close>; the function takes no settings, so no configured value reaches it.
  The test for emptiness comes before the trimming: a referral code that is not empty
  and consists of white space only is kept, and trimmed to nothing, so the URL ends in
  \<open>ref=\<close>.
\<close>

theorem toMulebuy_default_is_constant:
  "toMulebuy P (JStr shop) (JStr i) JUndefined =
     Inr (''https://mulebuy.com/product/?shop_type='' @ shop @ ''&id='' @ i @ ''&ref=200084174'')
   \<and> toMulebuy P (JStr shop) (JStr i) (JStr []) =
     Inr (''https://mulebuy.com/product/?shop_type='' @ shop @ ''&id='' @ i @ ''&ref=200084174'')
   \<and> (rf \<noteq> [] \<and> list_all is_ws rf \<longrightarrow>
        toMulebuy P (JStr shop) (JStr i) (JStr rf) =
          Inr (''https://mulebuy.com/product/?shop_type='' @ shop @ ''&id='' @ i @ ''&ref=''))"
  by (simp add: toMulebuy_Str toMulebuy_Undefined trim_default_ref trim_Nil_iff)

theorem toMulebuy_default_is_constant_witness:
  "''  '' \<noteq> [] \<and> list_all is_ws ''  ''
   \<and> toMulebuy sample_platform (JStr ''weidian'') (JStr ''123'') (JStr ''  '') =
       Inr ''https://mulebuy.com/product/?shop_type=weidian&id=123&ref=''
   \<and> toMulebuy sample_platform (JStr ''weidian'') (JStr ''123'') JUndefined =
       Inr ''https://mulebuy.com/product/?shop_type=weidian&id=123&ref=200084174''"
  using toMulebuy_default_is_constant [of sample_platform "''weidian''" "''123''" "''  ''"]
  by (simp add: is_ws_def)

section \<open>Parsing a shop URL\<close>

lemma parse_errors_distinct:
  "distinct [EmptyInput, MalformedUrl, MissingItemId_weidian, MissingItemId_taobao, UnsupportedDomain]"
  by (simp add: EmptyInput_def MalformedUrl_def MissingItemId_weidian_def
      MissingItemId_taobao_def UnsupportedDomain_def)

lemma parseShopUrl_weidian:
  "trim raw \<noteq> [] \<Longrightarrow> URL_new P (trim raw) = Some u \<Longrightarrow>
   includes_str (hostname u) ''weidian.com'' \<Longrightarrow>
   parseShopUrl P (Some raw) =
     (case URLSearchParams_get P (search u) ''itemID'' of
        None \<Rightarrow> Inl (Error MissingItemId_weidian)
      | Some v \<Rightarrow> if v = [] then Inl (Error MissingItemId_weidian) else Inr (''weidian'', v))"
  by (simp add: parseShopUrl_def)

lemma parseShopUrl_taobao:
  "trim raw \<noteq> [] \<Longrightarrow> URL_new P (trim raw) = Some u \<Longrightarrow>
   \<not> includes_str (hostname u) ''weidian.com'' \<Longrightarrow> includes_str (hostname u) ''taobao.com'' \<Longrightarrow>
   parseShopUrl P (Some raw) =
     (case URLSearchParams_get P (search u) ''id'' of
        None \<Rightarrow> Inl (Error MissingItemId_taobao)
      | Some v \<Rightarrow> if v = [] then Inl (Error MissingItemId_taobao) else Inr (''taobao'', v))"
  by (simp add: parseShopUrl_def)

text \<open>
  Claim C4. For every platform and every input string: \<open>parseShopUrl\<close> fails with the
  empty-input message exactly when the trimmed input is empty; with the malformed-URL
  message exactly when the trimmed input is not empty and \<open>new URL\<close> rejects it; for a URL
  \<open>u\<close> that \<open>new URL\<close> accepts, a host name containing \<open>weidian.com\<close> gives
  \<open>(weidian, itemID)\<close> when the \<open>itemID\<close> parameter is present and not empty and the
  missing-id message otherwise; a host name containing \<open>taobao.com\<close> (and not
  \<open>weidian.com\<close>, which is tested first) does the same with the \<open>id\<close> parameter; and the
  unsupported-domain message comes exactly when the host name contains neither. The
  messages of the four kinds are pairwise different.
\<close>

theorem parseShopUrl_outcomes:
  "(parseShopUrl P (Some raw) = Inl (Error EmptyInput) \<longleftrightarrow> trim raw = [])
   \<and> (parseShopUrl P (Some raw) = Inl (Error MalformedUrl) \<longleftrightarrow>
        trim raw \<noteq> [] \<and> URL_new P (trim raw) = None)
   \<and> (\<forall>u. trim raw \<noteq> [] \<and> URL_new P (trim raw) = Some u \<longrightarrow>
        (includes_str (hostname u) ''weidian.com'' \<longrightarrow>
           parseShopUrl P (Some raw) =
             (case URLSearchParams_get P (search u) ''itemID'' of
                None \<Rightarrow> Inl (Error MissingItemId_weidian)
              | Some v \<Rightarrow> if v = [] then Inl (Error MissingItemId_weidian) else Inr (''weidian'', v)))
        \<and> (\<not> includes_str (hostname u) ''weidian.com'' \<and> includes_str (hostname u) ''taobao.com'' \<longrightarrow>
           parseShopUrl P (Some raw) =
             (case URLSearchParams_get P (search u) ''id'' of
                None \<Rightarrow> Inl (Error MissingItemId_taobao)
              | Some v \<Rightarrow> if v = [] then Inl (Error MissingItemId_taobao) else Inr (''taobao'', v)))
        \<and> (parseShopUrl P (Some raw) = Inl (Error UnsupportedDomain) \<longleftrightarrow>
             \<not> includes_str (hostname u) ''weidian.com'' \<and> \<not> includes_str (hostname u) ''taobao.com''))
   \<and> distinct [EmptyInput, MalformedUrl, MissingItemId_weidian, MissingItemId_taobao, UnsupportedDomain]"
proof (intro conjI allI impI)
  note d = parse_errors_distinct
  show "parseShopUrl P (Some raw) = Inl (Error EmptyInput) \<longleftrightarrow> trim raw = []"
    using d by (auto simp: parseShopUrl_def split: option.splits)
  show "parseShopUrl P (Some raw) = Inl (Error MalformedUrl) \<longleftrightarrow>
        trim raw \<noteq> [] \<and> URL_new P (trim raw) = None"
    using d by (auto simp: parseShopUrl_def split: option.splits)
  show "distinct [EmptyInput, MalformedUrl, MissingItemId_weidian, MissingItemId_taobao, UnsupportedDomain]"
    by (rule d)
next
  fix u assume "trim raw \<noteq> [] \<and> URL_new P (trim raw) = Some u"
  then show "parseShopUrl P (Some raw) = Inl (Error UnsupportedDomain) \<longleftrightarrow>
             \<not> includes_str (hostname u) ''weidian.com'' \<and> \<not> includes_str (hostname u) ''taobao.com''"
    using parse_errors_distinct by (auto simp: parseShopUrl_def split: option.splits)
next
  fix u assume "trim raw \<noteq> [] \<and> URL_new P (trim raw) = Some u"
    "includes_str (hostname u) ''weidian.com''"
  then show "parseShopUrl P (Some raw) =
             (case URLSearchParams_get P (search u) ''itemID'' of
                None \<Rightarrow> Inl (Error MissingItemId_weidian)
              | Some v \<Rightarrow> if v = [] then Inl (Error MissingItemId_weidian) else Inr (''weidian'', v))"
    by (simp add: parseShopUrl_weidian)
next
  fix u assume "trim raw \<noteq> [] \<and> URL_new P (trim raw) = Some u"
    "\<not> includes_str (hostname u) ''weidian.com'' \<and> includes_str (hostname u) ''taobao.com''"
  then show "parseShopUrl P (Some raw) =
             (case URLSearchParams_get P (search u) ''id'' of
                None \<Rightarrow> Inl (Error MissingItemId_taobao)
              | Some v \<Rightarrow> if v = [] then Inl (Error MissingItemId_taobao) else Inr (''taobao'', v))"
    by (simp add: parseShopUrl_taobao)
qed

lemma sample_weidian:
  "sample_URL_new ''https://weidian.com/item.html?itemID=123'' =
     Some \<lparr>hostname = ''weidian.com'', search = ''?itemID=123''\<rparr>"
  by (simp add: sample_URL_new_def Let_def)

theorem parseShopUrl_outcomes_witness:
  "trim ''https://weidian.com/item.html?itemID=123'' \<noteq> []
   \<and> URL_new sample_platform (trim ''https://weidian.com/item.html?itemID=123'')
       = Some \<lparr>hostname = ''weidian.com'', search = ''?itemID=123''\<rparr>
   \<and> includes_str ''weidian.com'' ''weidian.com''
   \<and> parseShopUrl sample_platform (Some ''https://weidian.com/item.html?itemID=123'')
       = Inr (''weidian'', ''123'')
   \<and> parseShopUrl sample_platform (Some ''  '') = Inl (Error EmptyInput)
   \<and> parseShopUrl sample_platform (Some ''not a url'') = Inl (Error MalformedUrl)
   \<and> EmptyInput \<noteq> MalformedUrl"
proof -
  let ?raw = "''https://weidian.com/item.html?itemID=123''"
  let ?u = "\<lparr>hostname = ''weidian.com'', search = ''?itemID=123''\<rparr>"
  have t: "trim ?raw = ?raw" by (simp add: trim_def is_ws_def)
  have u: "URL_new sample_platform (trim ?raw) = Some ?u"
    by (simp add: t sample_platform_def sample_weidian)
  have i: "includes_str ''weidian.com'' ''weidian.com''" by simp
  have q: "URLSearchParams_get sample_platform ''?itemID=123'' ''itemID'' = Some ''123''"
    by (simp add: sample_platform_def sample_URLSearchParams_get_def)
  have e: "trim ''  '' = []" by (simp add: trim_def is_ws_def)
  have m: "trim ''not a url'' \<noteq> [] \<and> URL_new sample_platform (trim ''not a url'') = None"
    by (simp add: trim_def is_ws_def sample_platform_def sample_URL_new_def Let_def)
  from parseShopUrl_outcomes [of sample_platform ?raw] t u i q
  have 1: "parseShopUrl sample_platform (Some ?raw) = Inr (''weidian'', ''123'')"
    by simp
  from parseShopUrl_outcomes [of sample_platform "''  ''"] e
  have 2: "parseShopUrl sample_platform (Some ''  '') = Inl (Error EmptyInput)"
    by simp
  from parseShopUrl_outcomes [of sample_platform "''not a url''"] m
  have 3: "parseShopUrl sample_platform (Some ''not a url'') = Inl (Error MalformedUrl)"
    by simp
  from parseShopUrl_outcomes [of sample_platform ?raw]
  have 4: "EmptyInput \<noteq> MalformedUrl" by simp
  from t u i 1 2 3 4 show ?thesis by simp
qed

section \<open>The history cap\<close>

lemma convert_fails: "\<not> succeeds P c \<Longrightarrow> history (convert P st c) = history st"
  by (auto simp: succeeds_def convert_def handleConvert_def split: sum.splits)

lemma convert_succeeds:
  "succeeds P c \<Longrightarrow> history (convert P st c) = take 400 (entry_of P c # history st)"
  by (auto simp: succeeds_def convert_def handleConvert_def entry_of_def toMulebuy_Str split: sum.splits)

lemma convert_length: "length (history st) \<le> 400 \<Longrightarrow> length (history (convert P st c)) \<le> 400"
  by (cases "succeeds P c") (simp_all add: convert_fails convert_succeeds)

lemma conversions_length:
  "length (history st) \<le> 400 \<Longrightarrow> length (history (conversions P cs st)) \<le> 400"
  unfolding conversions_def
  by (induction cs arbitrary: st) (simp_all add: convert_length)

lemma take_append_take: "take n (xs @ take n ys) = take n (xs @ ys)"
  by (simp add: min_def)

lemma conversions_history:
  "\<forall>c\<in>set cs. succeeds P c \<Longrightarrow> length (history st) \<le> 400 \<Longrightarrow>
   history (conversions P cs st) = take 400 (rev (map (entry_of P) cs) @ history st)"
  unfolding conversions_def
proof (induction cs arbitrary: st)
  case Nil
  then show ?case by simp
next
  case (Cons c cs)
  then have "history (foldl (convert P) (convert P st c) cs)
      = take 400 (rev (map (entry_of P) cs) @ history (convert P st c))"
    by (simp add: convert_length)
  also have "\<dots> = take 400 (rev (map (entry_of P) cs) @ take 400 (entry_of P c # history st))"
    using Cons.prems by (simp add: convert_succeeds)
  also have "\<dots> = take 400 (rev (map (entry_of P) cs) @ entry_of P c # history st)"
    by (rule take_append_take)
  finally show ?case by simp
qed

text \<open>
  Claim C6. A successful conversion puts its entry first and keeps the first 400 entries,
  so the history has at most 400 entries after it; a failed conversion leaves the
  history as it is. A history of at most 400 entries stays so under any run of
  conversions. Starting from the empty history, a run of successful conversions leaves
  the entries of the last 400 of them, newest first; after 500 of them these are the
  entries of conversions 101 to 500, in reverse order. (The entries dropped are the
  last ones of the array, which are the oldest by insertion.)
\<close>

theorem history_cap:
  "(succeeds P c \<longrightarrow> history (convert P st c) = take 400 (entry_of P c # history st)
                     \<and> length (history (convert P st c)) \<le> 400)
   \<and> (\<not> succeeds P c \<longrightarrow> history (convert P st c) = history st)
   \<and> (length (history st) \<le> 400 \<longrightarrow> length (history (conversions P cs st)) \<le> 400)
   \<and> ((\<forall>c\<in>set cs. succeeds P c) \<and> history st = [] \<longrightarrow>
        history (conversions P cs st) = take 400 (rev (map (entry_of P) cs))
        \<and> length (history (conversions P cs st)) = min (length cs) 400
        \<and> (length cs = 500 \<longrightarrow>
             history (conversions P cs st) = rev (map (entry_of P) (drop 100 cs))
             \<and> length (history (conversions P cs st)) = 400))"
proof (intro conjI impI)
  assume s: "succeeds P c"
  then show "history (convert P st c) = take 400 (entry_of P c # history st)"
    by (rule convert_succeeds)
  from s show "length (history (convert P st c)) \<le> 400"
    by (simp add: convert_succeeds)
next
  assume "\<not> succeeds P c"
  then show "history (convert P st c) = history st"
    by (rule convert_fails)
next
  assume "length (history st) \<le> 400"
  then show "length (history (conversions P cs st)) \<le> 400"
    by (rule conversions_length)
next
  assume a: "(\<forall>c\<in>set cs. succeeds P c) \<and> history st = []"
  then have h: "history (conversions P cs st) = take 400 (rev (map (entry_of P) cs))"
    using conversions_history [of cs P st] by simp
  show "history (conversions P cs st) = take 400 (rev (map (entry_of P) cs))"
    by (rule h)
  show "length (history (conversions P cs st)) = min (length cs) 400"
    by (simp add: h)
  assume l: "length cs = 500"
  show "history (conversions P cs st) = rev (map (entry_of P) (drop 100 cs))"
    by (simp add: h take_rev l drop_map)
  show "length (history (conversions P cs st)) = 400"
    by (simp add: h l)
qed

lemma sample_parse:
  "parseShopUrl sample_platform (Some ''https://weidian.com/item.html?itemID=123'') = Inr (''weidian'', ''123'')"
  by (simp add: parseShopUrl_def trim_def is_ws_def sample_platform_def sample_URL_new_def
      sample_URLSearchParams_get_def Let_def)

lemma sample_succeeds: "succeeds sample_platform (sample_conversion k)"
  by (simp add: succeeds_def sample_conversion_def sample_parse)

lemma sample_entry:
  "entry_of sample_platform (sample_conversion k) =
     history_entry (decimal k) ''https://weidian.com/item.html?itemID=123'' ''weidian'' ''123'' ''R9''
       ''https://mulebuy.com/product/?shop_type=weidian&id=123&ref=R9''"
  by (simp add: entry_of_def sample_conversion_def sample_parse toMulebuy_Str trim_R9)

theorem history_cap_witness:
  "list_all (succeeds sample_platform) (map sample_conversion [0..<500])
   \<and> history sample_converter = []
   \<and> length (map sample_conversion [0..<500]) = 500
   \<and> length (history (conversions sample_platform (map sample_conversion [0..<500]) sample_converter)) = 400
   \<and> map (\<lambda>h. get_prop h ''ts'')
        (history (conversions sample_platform (map sample_conversion [0..<500]) sample_converter))
      = rev (map (\<lambda>k. JStr (decimal k)) [100..<500])"
proof -
  let ?cs = "map sample_conversion [0..<500]"
  have s: "\<forall>c\<in>set ?cs. succeeds sample_platform c"
    by (simp add: sample_succeeds del: upt_rec_numeral)
  have e: "history sample_converter = []"
    by (simp add: sample_converter_def)
  have l: "length ?cs = 500" by simp
  from history_cap [where P = sample_platform and cs = ?cs and st = sample_converter] s e l
  have h: "history (conversions sample_platform ?cs sample_converter)
        = rev (map (entry_of sample_platform) (drop 100 ?cs))
      \<and> length (history (conversions sample_platform ?cs sample_converter)) = 400"
    by blast
  have d: "drop 100 ?cs = map sample_conversion [100..<500]"
    by (simp add: drop_map del: upt_rec_numeral)
  have t: "map (\<lambda>h. get_prop h ''ts'') (rev (map (entry_of sample_platform) (map sample_conversion [100..<500])))
      = rev (map (\<lambda>k. JStr (decimal k)) [100..<500])"
    by (simp add: rev_map sample_entry history_entry_def comp_def del: upt_rec_numeral)
  from s have "list_all (succeeds sample_platform) ?cs"
    by (simp only: list_all_iff)
  with e l h d t show ?thesis by (simp del: upt_rec_numeral)
qed

section \<open>Bulk move\<close>

lemma bulkMove_nth:
  "selection \<noteq> {} \<Longrightarrow> k < length ps \<Longrightarrow>
   fst (bulkMove l (ps, selection)) ! k = (if uid (ps ! k) \<in> selection then (ps ! k)\<lparr>list' := l\<rparr> else ps ! k)"
  by (simp add: bulkMove_def)

lemma bulkMove_lists:
  "l \<in> set LISTS \<Longrightarrow> \<forall>p\<in>set ps. list' p \<in> set LISTS \<Longrightarrow>
   \<forall>p\<in>set (fst (bulkMove l (ps, selection))). list' p \<in> set LISTS"
  by (auto simp: bulkMove_def)

text \<open>
  Claim C1, as amended. \<open>bulkMove\<close> makes no test of the list name and has no failure:
  for a selection that is not empty and any list name, member of \<open>LISTS\<close> or not, it
  writes the name into \<open>list\<close> of exactly the selected products, leaves every other
  product as it is and clears the selection; for the empty selection it does nothing.
  When the name is a member of \<open>LISTS\<close> and every product's list was one, every
  product's list is one afterwards.
\<close>

theorem bulkMove_moves_selected:
  "(selection \<noteq> {} \<longrightarrow>
      length (fst (bulkMove l (ps, selection))) = length ps
      \<and> snd (bulkMove l (ps, selection)) = {}
      \<and> (\<forall>k<length ps.
            (uid (ps ! k) \<in> selection \<longrightarrow> fst (bulkMove l (ps, selection)) ! k = (ps ! k)\<lparr>list' := l\<rparr>)
            \<and> (uid (ps ! k) \<notin> selection \<longrightarrow> fst (bulkMove l (ps, selection)) ! k = ps ! k)))
   \<and> bulkMove l (ps, {}) = (ps, {})
   \<and> (l \<in> set LISTS \<and> (\<forall>p\<in>set ps. list' p \<in> set LISTS) \<longrightarrow>
        (\<forall>p\<in>set (fst (bulkMove l (ps, selection))). list' p \<in> set LISTS))"
proof (intro conjI impI allI)
  assume "selection \<noteq> {}"
  then show "length (fst (bulkMove l (ps, selection))) = length ps"
    and "snd (bulkMove l (ps, selection)) = {}"
    by (simp_all add: bulkMove_def)
next
  fix k assume "selection \<noteq> {}" "k < length ps" "uid (ps ! k) \<in> selection"
  then show "fst (bulkMove l (ps, selection)) ! k = (ps ! k)\<lparr>list' := l\<rparr>"
    by (simp add: bulkMove_nth)
next
  fix k assume "selection \<noteq> {}" "k < length ps" "uid (ps ! k) \<notin> selection"
  then show "fst (bulkMove l (ps, selection)) ! k = ps ! k"
    by (simp add: bulkMove_nth)
next
  show "bulkMove l (ps, {}) = (ps, {})"
    by (simp add: bulkMove_def)
next
  assume "l \<in> set LISTS \<and> (\<forall>p\<in>set ps. list' p \<in> set LISTS)"
  then show "\<forall>p\<in>set (fst (bulkMove l (ps, selection))). list' p \<in> set LISTS"
    using bulkMove_lists by blast
qed

text \<open>
  The claim as stated fails: moving the selection \<open>{u1}\<close> to \<open>NotARealList\<close>, which is no
  member of \<open>LISTS\<close>, changes the list of product \<open>u1\<close>.
\<close>

theorem bulkMove_invalid_list_counterexample:
  "''NotARealList'' \<notin> set LISTS
   \<and> {''u1''} \<noteq> ({} :: string set)
   \<and> map list' [sample_product ''u1'' ''Wishlist'' [] [], sample_product ''u2'' ''To Buy'' [] []]
       = [''Wishlist'', ''To Buy'']
   \<and> map list' (fst (bulkMove ''NotARealList''
        ([sample_product ''u1'' ''Wishlist'' [] [], sample_product ''u2'' ''To Buy'' [] []], {''u1''})))
       = [''NotARealList'', ''To Buy'']"
  by (simp add: LISTS_def bulkMove_def sample_product_def)

theorem bulkMove_moves_selected_witness:
  "{''u1''} \<noteq> ({} :: string set)
   \<and> ''Ordered'' \<in> set LISTS
   \<and> (0::nat) < length [sample_product ''u1'' ''Wishlist'' [] [], sample_product ''u2'' ''To Buy'' [] []]
   \<and> uid ([sample_product ''u1'' ''Wishlist'' [] [], sample_product ''u2'' ''To Buy'' [] []] ! 0) \<in> {''u1''}
   \<and> fst (bulkMove ''Ordered''
        ([sample_product ''u1'' ''Wishlist'' [] [], sample_product ''u2'' ''To Buy'' [] []], {''u1''}))
      = [sample_product ''u1'' ''Ordered'' [] [], sample_product ''u2'' ''To Buy'' [] []]"
proof -
  let ?ps = "[sample_product ''u1'' ''Wishlist'' [] [], sample_product ''u2'' ''To Buy'' [] []]"
  let ?r = "fst (bulkMove ''Ordered'' (?ps, {''u1''}))"
  have n: "{''u1''} \<noteq> ({} :: string set)" by simp
  have u0: "uid (?ps ! 0) \<in> {''u1''}" by (simp add: sample_product_def)
  have u1: "uid (?ps ! 1) \<notin> {''u1''}" by (simp add: sample_product_def)
  from bulkMove_moves_selected [of "{''u1''}" "''Ordered''" ?ps] n
  have a: "length ?r = length ?ps"
    and b: "\<forall>k<length ?ps. (uid (?ps ! k) \<in> {''u1''} \<longrightarrow> ?r ! k = (?ps ! k)\<lparr>list' := ''Ordered''\<rparr>)
            \<and> (uid (?ps ! k) \<notin> {''u1''} \<longrightarrow> ?r ! k = ?ps ! k)"
    by blast+
  from b u0 have r0: "?r ! 0 = (?ps ! 0)\<lparr>list' := ''Ordered''\<rparr>" by simp
  from b u1 have r1: "?r ! 1 = ?ps ! 1" by simp
  have "?r = [?r ! 0, ?r ! 1]"
    using a by (simp add: list_eq_iff_nth_eq less_Suc_eq)
  then have "?r = [sample_product ''u1'' ''Ordered'' [] [], sample_product ''u2'' ''To Buy'' [] []]"
    using r0 r1 by (simp add: sample_product_def)
  with n u0 show ?thesis by (simp add: LISTS_def)
qed

section \<open>Bulk tagging\<close>

lemma foldl_Set_distinct:
  "distinct acc \<Longrightarrow> distinct (foldl (\<lambda>acc x. if x \<in> set acc then acc else acc @ [x]) acc xs)"
  by (induction xs arbitrary: acc) auto

lemma foldl_Set_set:
  "set (foldl (\<lambda>acc x. if x \<in> set acc then acc else acc @ [x]) acc xs) = set acc \<union> set xs"
  by (induction xs arbitrary: acc) auto

lemma foldl_Set_id:
  "distinct (acc @ xs) \<Longrightarrow> foldl (\<lambda>acc x. if x \<in> set acc then acc else acc @ [x]) acc xs = acc @ xs"
  by (induction xs arbitrary: acc) auto

lemma Array_from_Set_distinct: "distinct (Array_from_Set xs)"
  by (simp add: Array_from_Set_def foldl_Set_distinct)

lemma Array_from_Set_set: "set (Array_from_Set xs) = set xs"
  by (simp add: Array_from_Set_def foldl_Set_set)

lemma Array_from_Set_id: "distinct xs \<Longrightarrow> Array_from_Set xs = xs"
  using foldl_Set_id [of "[]" xs] by (simp add: Array_from_Set_def)

lemma Array_from_Set_snoc:
  "Array_from_Set (xs @ [x]) = (if x \<in> set xs then Array_from_Set xs else Array_from_Set xs @ [x])"
  by (simp add: Array_from_Set_def foldl_Set_set)

lemma Array_from_Set_twice:
  "Array_from_Set (Array_from_Set (xs @ [x]) @ [x]) = Array_from_Set (xs @ [x])"
proof -
  have "x \<in> set (Array_from_Set (xs @ [x]))" by (simp add: Array_from_Set_set)
  then have "Array_from_Set (Array_from_Set (xs @ [x]) @ [x]) = Array_from_Set (Array_from_Set (xs @ [x]))"
    using Array_from_Set_snoc [of "Array_from_Set (xs @ [x])" x] by simp
  also have "\<dots> = Array_from_Set (xs @ [x])"
    by (rule Array_from_Set_id) (rule Array_from_Set_distinct)
  finally show ?thesis .
qed

lemma bulkAddTag_nth:
  "t \<noteq> [] \<Longrightarrow> k < length ps \<Longrightarrow>
   fst (bulkAddTag t (ps, sel)) ! k =
     (if uid (ps ! k) \<in> sel then (ps ! k)\<lparr>tags := Array_from_Set (tags (ps ! k) @ [t])\<rparr> else ps ! k)"
  by (simp add: bulkAddTag_def)

lemma bulkAddTag_idem: "bulkAddTag t (bulkAddTag t (ps, sel)) = bulkAddTag t (ps, sel)"
  by (simp add: bulkAddTag_def Array_from_Set_twice)

lemma AddTag_idem: "AddTag tag (AddTag tag (ps, sel)) = AddTag tag (ps, sel)"
  by (simp add: AddTag_def bulkAddTag_idem)

text \<open>
  Claim C5. The bulk bar's button does nothing when the typed tag is empty after
  trimming, and calls \<open>bulkAddTag\<close> with the trimmed tag otherwise; \<open>bulkAddTag\<close> does
  nothing on the empty tag. For a tag \<open>t\<close> that is not empty, \<open>bulkAddTag\<close> keeps the
  selection and the products that are not selected, and changes only the tags of a
  selected product: the tags become duplicate-free with \<open>t\<close> among them and nothing else
  new; a duplicate-free tag list that has \<open>t\<close> is left as it is, one that has not gets
  \<open>t\<close> at its end. Doing either operation twice gives what doing it once gives.
\<close>

theorem AddTag_adds_once:
  "(trim tag = [] \<longrightarrow> AddTag tag (ps, sel) = (ps, sel))
   \<and> (trim tag \<noteq> [] \<longrightarrow> AddTag tag (ps, sel) = bulkAddTag (trim tag) (ps, sel))
   \<and> bulkAddTag [] (ps, sel) = (ps, sel)
   \<and> (t \<noteq> [] \<longrightarrow>
        length (fst (bulkAddTag t (ps, sel))) = length ps
        \<and> snd (bulkAddTag t (ps, sel)) = sel
        \<and> (\<forall>k<length ps.
              (uid (ps ! k) \<notin> sel \<longrightarrow> fst (bulkAddTag t (ps, sel)) ! k = ps ! k)
              \<and> (uid (ps ! k) \<in> sel \<longrightarrow>
                   fst (bulkAddTag t (ps, sel)) ! k
                     = (ps ! k)\<lparr>tags := tags (fst (bulkAddTag t (ps, sel)) ! k)\<rparr>
                   \<and> set (tags (fst (bulkAddTag t (ps, sel)) ! k)) = insert t (set (tags (ps ! k)))
                   \<and> distinct (tags (fst (bulkAddTag t (ps, sel)) ! k))
                   \<and> (distinct (tags (ps ! k)) \<and> t \<in> set (tags (ps ! k)) \<longrightarrow>
                        fst (bulkAddTag t (ps, sel)) ! k = ps ! k)
                   \<and> (distinct (tags (ps ! k)) \<and> t \<notin> set (tags (ps ! k)) \<longrightarrow>
                        tags (fst (bulkAddTag t (ps, sel)) ! k) = tags (ps ! k) @ [t]))))
   \<and> bulkAddTag t (bulkAddTag t (ps, sel)) = bulkAddTag t (ps, sel)
   \<and> AddTag tag (AddTag tag (ps, sel)) = AddTag tag (ps, sel)"
proof (intro conjI impI allI)
  show "bulkAddTag t (bulkAddTag t (ps, sel)) = bulkAddTag t (ps, sel)"
    by (rule bulkAddTag_idem)
  show "AddTag tag (AddTag tag (ps, sel)) = AddTag tag (ps, sel)"
    by (rule AddTag_idem)
  show "bulkAddTag [] (ps, sel) = (ps, sel)"
    by (simp add: bulkAddTag_def)
next
  assume "trim tag = []"
  then show "AddTag tag (ps, sel) = (ps, sel)" by (simp add: AddTag_def)
next
  assume "trim tag \<noteq> []"
  then show "AddTag tag (ps, sel) = bulkAddTag (trim tag) (ps, sel)" by (simp add: AddTag_def)
next
  assume "t \<noteq> []"
  then show "length (fst (bulkAddTag t (ps, sel))) = length ps"
    and "snd (bulkAddTag t (ps, sel)) = sel"
    by (simp_all add: bulkAddTag_def)
next
  fix k assume "t \<noteq> []" "k < length ps" "uid (ps ! k) \<notin> sel"
  then show "fst (bulkAddTag t (ps, sel)) ! k = ps ! k"
    by (simp add: bulkAddTag_nth)
next
  fix k assume a: "t \<noteq> []" "k < length ps" "uid (ps ! k) \<in> sel"
  then have e: "fst (bulkAddTag t (ps, sel)) ! k = (ps ! k)\<lparr>tags := Array_from_Set (tags (ps ! k) @ [t])\<rparr>"
    by (simp add: bulkAddTag_nth)
  show "fst (bulkAddTag t (ps, sel)) ! k = (ps ! k)\<lparr>tags := tags (fst (bulkAddTag t (ps, sel)) ! k)\<rparr>"
    by (simp add: e)
  show "set (tags (fst (bulkAddTag t (ps, sel)) ! k)) = insert t (set (tags (ps ! k)))"
    by (simp add: e Array_from_Set_set)
  show "distinct (tags (fst (bulkAddTag t (ps, sel)) ! k))"
    by (simp add: e Array_from_Set_distinct)
next
  fix k assume "t \<noteq> []" "k < length ps" "uid (ps ! k) \<in> sel"
    "distinct (tags (ps ! k)) \<and> t \<in> set (tags (ps ! k))"
  then show "fst (bulkAddTag t (ps, sel)) ! k = ps ! k"
    by (simp add: bulkAddTag_nth Array_from_Set_snoc Array_from_Set_id)
next
  fix k assume "t \<noteq> []" "k < length ps" "uid (ps ! k) \<in> sel"
    "distinct (tags (ps ! k)) \<and> t \<notin> set (tags (ps ! k))"
  then show "tags (fst (bulkAddTag t (ps, sel)) ! k) = tags (ps ! k) @ [t]"
    by (simp add: bulkAddTag_nth Array_from_Set_snoc Array_from_Set_id)
qed

theorem AddTag_adds_once_witness:
  "trim ''   '' = []
   \<and> trim '' qc '' \<noteq> []
   \<and> AddTag ''   '' ([sample_product ''u1'' ''Wishlist'' [''a''] [], sample_product ''u2'' ''To Buy'' [] []], {''u1''})
       = ([sample_product ''u1'' ''Wishlist'' [''a''] [], sample_product ''u2'' ''To Buy'' [] []], {''u1''})
   \<and> AddTag '' qc '' ([sample_product ''u1'' ''Wishlist'' [''a''] [], sample_product ''u2'' ''To Buy'' [] []], {''u1''})
       = ([sample_product ''u1'' ''Wishlist'' [''a'', ''qc''] [], sample_product ''u2'' ''To Buy'' [] []], {''u1''})
   \<and> AddTag '' qc '' ([sample_product ''u1'' ''Wishlist'' [''a'', ''qc''] [], sample_product ''u2'' ''To Buy'' [] []], {''u1''})
       = ([sample_product ''u1'' ''Wishlist'' [''a'', ''qc''] [], sample_product ''u2'' ''To Buy'' [] []], {''u1''})"
proof -
  let ?ps = "[sample_product ''u1'' ''Wishlist'' [''a''] [], sample_product ''u2'' ''To Buy'' [] []]"
  let ?qs = "[sample_product ''u1'' ''Wishlist'' [''a'', ''qc''] [], sample_product ''u2'' ''To Buy'' [] []]"
  have b: "trim ''   '' = []" by (simp add: trim_def is_ws_def)
  have q: "trim '' qc '' = ''qc''" by (simp add: trim_def is_ws_def)
  have 1: "AddTag ''   '' (?ps, {''u1''}) = (?ps, {''u1''})"
    using AddTag_adds_once [of "''   ''" ?ps "{''u1''}"] b by simp
  have 2: "AddTag '' qc '' (?ps, {''u1''}) = bulkAddTag ''qc'' (?ps, {''u1''})"
    using AddTag_adds_once [of "'' qc ''" ?ps "{''u1''}"] q by simp
  have 3: "bulkAddTag ''qc'' (?ps, {''u1''}) = (?qs, {''u1''})"
    by (simp add: bulkAddTag_def sample_product_def Array_from_Set_def)
  have 4: "AddTag '' qc '' (AddTag '' qc '' (?ps, {''u1''})) = AddTag '' qc '' (?ps, {''u1''})"
    using AddTag_adds_once [of "'' qc ''" ?ps "{''u1''}"] by simp
  from b q 1 2 3 4 show ?thesis by simp
qed

section \<open>Import\<close>

text \<open>
  Claim C9. The import of a parsed value that is not \<open>null\<close>, not an array, whose
  \<open>products\<close> is no array and which has no \<open>settings\<close> reports success and leaves the
  products and the settings as they are: so for every number, string and boolean, and
  for every object with neither key. The import of \<open>null\<close> reports an error, the lookup
  of \<open>products\<close> having thrown before any state is written, and leaves the state as it
  is.
\<close>

theorem Import_other_values:
  "(d \<noteq> JNull \<and> d \<noteq> JUndefined \<and> (\<forall>xs. d \<noteq> JArr xs)
      \<and> (\<forall>ps. get_prop d ''products'' \<noteq> JArr ps) \<and> get_prop d ''settings'' = JUndefined
      \<longrightarrow> Import (Json d) st = (Import_reussi, st))
   \<and> Import (Json (JNum n)) st = (Import_reussi, st)
   \<and> Import (Json (JStr s)) st = (Import_reussi, st)
   \<and> Import (Json (JBool b)) st = (Import_reussi, st)
   \<and> (map_of kvs ''products'' = None \<and> map_of kvs ''settings'' = None
        \<longrightarrow> Import (Json (JObj kvs)) st = (Import_reussi, st))
   \<and> Import (Json JNull) st = (Import_invalide, st)"
proof (intro conjI impI)
  assume a: "d \<noteq> JNull \<and> d \<noteq> JUndefined \<and> (\<forall>xs. d \<noteq> JArr xs)
      \<and> (\<forall>ps. get_prop d ''products'' \<noteq> JArr ps) \<and> get_prop d ''settings'' = JUndefined"
  then show "Import (Json d) st = (Import_reussi, st)"
    by (cases d; cases "get_prop d ''products''") (simp_all add: Import_def Let_def)
next
  show "Import (Json (JNum n)) st = (Import_reussi, st)"
    and "Import (Json (JStr s)) st = (Import_reussi, st)"
    and "Import (Json (JBool b)) st = (Import_reussi, st)"
    and "Import (Json JNull) st = (Import_invalide, st)"
    by (simp_all add: Import_def)
next
  assume "map_of kvs ''products'' = None \<and> map_of kvs ''settings'' = None"
  then show "Import (Json (JObj kvs)) st = (Import_reussi, st)"
    by (simp add: Import_def)
qed

theorem Import_other_values_witness:
  "map_of [(''foo'', JNum 0x3FF0000000000000)] ''products'' = None \<and> map_of [(''foo'', JNum 0x3FF0000000000000)] ''settings'' = None
   \<and> Import (Json (JObj [(''foo'', JNum 0x3FF0000000000000)])) sample_state = (Import_reussi, sample_state)
   \<and> Import (Json (JObj [(''products'', JNum 0x4014000000000000)])) sample_state = (Import_reussi, sample_state)
   \<and> Import (Json (JNum 0x4014000000000000)) sample_state = (Import_reussi, sample_state)
   \<and> Import (Json JNull) sample_state = (Import_invalide, sample_state)"
proof -
  have h: "map_of [(''foo'', JNum 0x3FF0000000000000)] ''products'' = None \<and> map_of [(''foo'', JNum 0x3FF0000000000000)] ''settings'' = None"
    by simp
  have g: "JObj [(''products'', JNum 0x4014000000000000)] \<noteq> JNull \<and> JObj [(''products'', JNum 0x4014000000000000)] \<noteq> JUndefined
      \<and> (\<forall>xs. JObj [(''products'', JNum 0x4014000000000000)] \<noteq> JArr xs)
      \<and> (\<forall>ps. get_prop (JObj [(''products'', JNum 0x4014000000000000)]) ''products'' \<noteq> JArr ps)
      \<and> get_prop (JObj [(''products'', JNum 0x4014000000000000)]) ''settings'' = JUndefined"
    by simp
  from Import_other_values [where kvs = "[(''foo'', JNum 0x3FF0000000000000)]" and st = sample_state] h
  have 1: "Import (Json (JObj [(''foo'', JNum 0x3FF0000000000000)])) sample_state = (Import_reussi, sample_state)"
    by blast
  from Import_other_values [where d = "JObj [(''products'', JNum 0x4014000000000000)]" and st = sample_state] g
  have 2: "Import (Json (JObj [(''products'', JNum 0x4014000000000000)])) sample_state = (Import_reussi, sample_state)"
    by blast
  from Import_other_values [where n = "0x4014000000000000" and st = sample_state]
  have 3: "Import (Json (JNum 0x4014000000000000)) sample_state = (Import_reussi, sample_state)"
    and 4: "Import (Json JNull) sample_state = (Import_invalide, sample_state)"
    by blast+
  from h 1 2 3 4 show ?thesis by blast
qed

section \<open>Export and import round trip\<close>

lemma zero_bits: "is_zero 0" "is_finite 0"
  by (simp_all add: is_zero_def is_finite_def)

lemma jsonify_Undefined_iff: "jsonify v = JUndefined \<longleftrightarrow> v = JUndefined"
  by (cases v) simp_all

lemma jsonify_idem:
  "jsonify (jsonify v) = jsonify v"
  "jsonify_elems (jsonify_elems xs) = jsonify_elems xs"
  "jsonify_props (jsonify_props kvs) = jsonify_props kvs"
  by (induction v and xs and kvs rule: jsonify_jsonify_elems_jsonify_props.induct)
     (simp_all add: jsonify_Undefined_iff zero_bits)

lemma set_prop_same:
  assumes "kv \<in> set kvs" "distinct (map fst kvs)"
  shows "set_prop kvs kv = kvs"
proof -
  have "\<And>old. old \<in> set kvs \<Longrightarrow> fst old = fst kv \<Longrightarrow> old = kv"
    using assms by (metis eq_key_imp_eq_value prod.collapse)
  then have "map (\<lambda>old. if fst old = fst kv then kv else old) kvs = kvs"
    by (intro map_idI) auto
  then show ?thesis using assms(1) by (simp add: set_prop_def)
qed

lemma foldl_set_prop_same:
  "set xs \<subseteq> set kvs \<Longrightarrow> distinct (map fst kvs) \<Longrightarrow> foldl set_prop kvs xs = kvs"
  by (induction xs) (simp_all add: set_prop_same)

lemma spread_same: "distinct (map fst kvs) \<Longrightarrow> spread kvs (JObj kvs) = kvs"
  by (simp add: spread_def own_props_def foldl_set_prop_same)

lemma Export_eq:
  "Export st = Json (JObj [(''settings'', JObj (jsonify_props (app_settings st))),
                           (''products'', JArr (jsonify_elems (app_products st)))])"
  by (simp add: Export_def stringify_def)

lemma Import_Export_products:
  "app_products (snd (Import (Export st) st')) = jsonify_elems (app_products st)"
  by (simp add: Export_eq Import_def Let_def)

lemma Import_Export:
  "distinct (map fst (app_settings st)) \<Longrightarrow> jsonify_props (app_settings st) = app_settings st \<Longrightarrow>
   Import (Export st) st = (Import_reussi, st\<lparr>app_products := jsonify_elems (app_products st)\<rparr>)"
  by (simp add: Export_eq Import_def Let_def spread_same)

text \<open>
  Claim C8. The exported text denotes an object with the two fields \<open>settings\<close> and
  \<open>products\<close>, holding the settings and the products as \<open>JSON.stringify\<close> writes them.
  Importing it, into any state, replaces the products by the exported array. Importing
  it at once, into the state it was exported from, whose settings are an object of JSON
  values with distinct keys, reports success and leaves the settings as they are; the
  state then exports to the same text, and it is the same state when the products are
  JSON values too (as they are unless a migrated legacy record left a property
  \<open>undefined\<close>, which the text omits).
\<close>

theorem Export_Import_roundtrip:
  "Export st = Json (JObj [(''settings'', JObj (jsonify_props (app_settings st))),
                           (''products'', JArr (jsonify_elems (app_products st)))])
   \<and> app_products (snd (Import (Export st) st')) = jsonify_elems (app_products st)
   \<and> (distinct (map fst (app_settings st)) \<and> jsonify_props (app_settings st) = app_settings st \<longrightarrow>
        Import (Export st) st = (Import_reussi, st\<lparr>app_products := jsonify_elems (app_products st)\<rparr>)
        \<and> Export (snd (Import (Export st) st)) = Export st
        \<and> (jsonify_elems (app_products st) = app_products st \<longrightarrow>
             Import (Export st) st = (Import_reussi, st)))"
proof (intro conjI impI)
  show "Export st = Json (JObj [(''settings'', JObj (jsonify_props (app_settings st))),
                           (''products'', JArr (jsonify_elems (app_products st)))])"
    by (rule Export_eq)
  show "app_products (snd (Import (Export st) st')) = jsonify_elems (app_products st)"
    by (rule Import_Export_products)
next
  assume a: "distinct (map fst (app_settings st)) \<and> jsonify_props (app_settings st) = app_settings st"
  then have i: "Import (Export st) st = (Import_reussi, st\<lparr>app_products := jsonify_elems (app_products st)\<rparr>)"
    by (simp add: Import_Export)
  show "Import (Export st) st = (Import_reussi, st\<lparr>app_products := jsonify_elems (app_products st)\<rparr>)"
    by (rule i)
  have "snd (Import (Export st) st) = st\<lparr>app_products := jsonify_elems (app_products st)\<rparr>"
    by (simp add: i)
  then show "Export (snd (Import (Export st) st)) = Export st"
    by (simp add: Export_eq jsonify_idem)
  assume "jsonify_elems (app_products st) = app_products st"
  then show "Import (Export st) st = (Import_reussi, st)"
    by (simp add: i)
qed

theorem Export_Import_roundtrip_witness:
  "distinct (map fst (app_settings sample_state))
   \<and> jsonify_props (app_settings sample_state) = app_settings sample_state
   \<and> jsonify_elems (app_products sample_state) = app_products sample_state
   \<and> Export sample_state =
       Json (JObj [(''settings'', JObj DEFAULT_SETTINGS),
                   (''products'', JArr [JObj [(''uid'', JStr ''u1''), (''list'', JStr ''Wishlist'')]])])
   \<and> Import (Export sample_state) sample_state = (Import_reussi, sample_state)"
proof -
  have d: "distinct (map fst (app_settings sample_state))"
    by (simp add: sample_state_def DEFAULT_SETTINGS_def)
  have s: "jsonify_props (app_settings sample_state) = app_settings sample_state"
    by (simp add: sample_state_def DEFAULT_SETTINGS_def)
  have p: "jsonify_elems (app_products sample_state) = app_products sample_state"
    by (simp add: sample_state_def)
  note r = Export_Import_roundtrip [of sample_state sample_state]
  from r d s p have i: "Import (Export sample_state) sample_state = (Import_reussi, sample_state)"
    by blast
  from r have "Export sample_state =
      Json (JObj [(''settings'', JObj (jsonify_props (app_settings sample_state))),
                  (''products'', JArr (jsonify_elems (app_products sample_state)))])"
    by blast
  then have e: "Export sample_state = Json (JObj [(''settings'', JObj (app_settings sample_state)),
                           (''products'', JArr (app_products sample_state))])"
    by (simp only: s p)
  from e have "Export sample_state =
       Json (JObj [(''settings'', JObj DEFAULT_SETTINGS),
                   (''products'', JArr [JObj [(''uid'', JStr ''u1''), (''list'', JStr ''Wishlist'')]])])"
    by (simp add: sample_state_def)
  with d s p i show ?thesis by blast
qed

section \<open>Migration\<close>

lemma items_saveJSON_other: "k \<noteq> k' \<Longrightarrow> items (saveJSON e k v ls) k' = items ls k'"
  by (simp add: saveJSON_def)

lemma items_saveJSON_same:
  "\<not> setItem_throws e k (stringify v) \<Longrightarrow> items (saveJSON e k v ls) k = Some (stringify v)"
  by (simp add: saveJSON_def)

lemma LS_keys_differ: "LS_history \<noteq> LS_products" "LS_settings \<noteq> LS_products"
  by (simp_all add: LS_products_def LS_settings_def LS_history_def)

lemma truthy_loadJSON:
  "truthy (loadJSON e ls k JNull) \<Longrightarrow>
   \<not> getItem_throws e k \<and> (\<exists>v. items ls k = Some (Json v) \<and> truthy v)"
  by (auto simp: loadJSON_def nullish_def split: option.splits item.splits if_splits)

lemma loadJSON_truthy:
  "\<not> getItem_throws e k \<Longrightarrow> items ls k = Some (Json v) \<Longrightarrow> truthy v \<Longrightarrow> loadJSON e ls k JNull = v"
  by (auto simp: loadJSON_def nullish_def)

lemma migrateIfNeeded_current:
  "truthy (loadJSON e ls LS_products JNull) \<Longrightarrow>
   migrateIfNeeded P e ls =
     Inr (\<lparr>products = loadJSON e ls LS_products JNull,
           settings = nullish (loadJSON e ls LS_settings JNull) (JObj DEFAULT_SETTINGS),
           history0 = nullish (loadJSON e ls LS_history JNull) (JArr [])\<rparr>, ls)"
  by (simp add: migrateIfNeeded_def)

lemma migrateIfNeeded_legacy:
  "\<not> truthy (loadJSON e ls LS_products JNull) \<Longrightarrow> loadJSON e ls LS_legacySaved JNull = JArr xs \<Longrightarrow>
   migrate_entries P e 0 xs = Inr ys \<Longrightarrow>
   migrateIfNeeded P e ls =
     Inr (\<lparr>products = JArr ys, settings = JObj DEFAULT_SETTINGS,
           history0 = or_else (loadJSON e ls LS_legacyHistory (JArr [])) (JArr [])\<rparr>,
          saveJSON e LS_history (or_else (loadJSON e ls LS_legacyHistory (JArr [])) (JArr []))
            (saveJSON e LS_products (JArr ys) ls))"
  by (simp add: migrateIfNeeded_def Let_def)

lemma migrateIfNeeded_legacy_throws:
  "\<not> truthy (loadJSON e ls LS_products JNull) \<Longrightarrow> loadJSON e ls LS_legacySaved JNull = JArr xs \<Longrightarrow>
   migrate_entries P e 0 xs = Inl err \<Longrightarrow> migrateIfNeeded P e ls = Inl err"
  by (simp add: migrateIfNeeded_def)

lemma migrateIfNeeded_fresh:
  "\<not> truthy (loadJSON e ls LS_products JNull) \<Longrightarrow> \<forall>xs. loadJSON e ls LS_legacySaved JNull \<noteq> JArr xs \<Longrightarrow>
   migrateIfNeeded P e ls =
     Inr (\<lparr>products = JArr [], settings = JObj DEFAULT_SETTINGS, history0 = JArr []\<rparr>,
          saveJSON e LS_history (JArr [])
            (saveJSON e LS_settings (JObj DEFAULT_SETTINGS) (saveJSON e LS_products (JArr []) ls)))"
  by (cases "loadJSON e ls LS_legacySaved JNull") (simp_all add: migrateIfNeeded_def)

lemma stored_array: "stringify (JArr ys) = Json (JArr (jsonify_elems ys))"
  by (simp add: stringify_def)

lemma migrateIfNeeded_leaves_products:
  assumes r: "migrateIfNeeded P e ls = Inr (b, ls')"
    and w: "truthy (loadJSON e ls LS_products JNull) \<or> \<not> setItem_throws e LS_products (stringify (products b))"
  shows "\<exists>v. items ls' LS_products = Some (Json v) \<and> truthy v"
proof (cases "truthy (loadJSON e ls LS_products JNull)")
  case True
  with r have "ls' = ls" by (simp add: migrateIfNeeded_current)
  with True show ?thesis using truthy_loadJSON by blast
next
  case False
  with w have w': "\<not> setItem_throws e LS_products (stringify (products b))" by simp
  show ?thesis
  proof (cases "\<exists>xs. loadJSON e ls LS_legacySaved JNull = JArr xs")
    case True
    then obtain xs where xs: "loadJSON e ls LS_legacySaved JNull = JArr xs" by blast
    show ?thesis
    proof (cases "migrate_entries P e 0 xs")
      case (Inl err)
      with r False xs show ?thesis by (simp add: migrateIfNeeded_legacy_throws)
    next
      case (Inr ys)
      with r False xs have b: "products b = JArr ys"
        and l: "ls' = saveJSON e LS_history (or_else (loadJSON e ls LS_legacyHistory (JArr [])) (JArr []))
            (saveJSON e LS_products (JArr ys) ls)"
        by (auto simp: migrateIfNeeded_legacy)
      from w' b have "items ls' LS_products = Some (Json (JArr (jsonify_elems ys)))"
        by (simp add: l items_saveJSON_other items_saveJSON_same LS_keys_differ stored_array)
      then show ?thesis by simp
    qed
  next
    case no: False
    with r False have b: "products b = JArr []"
      and l: "ls' = saveJSON e LS_history (JArr [])
            (saveJSON e LS_settings (JObj DEFAULT_SETTINGS) (saveJSON e LS_products (JArr []) ls))"
      by (auto simp: migrateIfNeeded_fresh)
    from w' b have "items ls' LS_products = Some (Json (JArr []))"
      by (simp add: l items_saveJSON_other items_saveJSON_same LS_keys_differ stored_array)
    then show ?thesis by simp
  qed
qed

text \<open>
  Claim C2, as amended. A second run is a no-op whenever the first run left the current
  products key stored. Let a run of \<open>migrateIfNeeded\<close> return, having found the products
  key truthy or else having had its \<open>setItem\<close> of that key carried out. Then the storage
  it leaves holds under that key a text that parses to a truthy value, and a second run
  on that storage whose \<open>getItem\<close> of the key does not throw, on any platform and with any
  identifiers and clock, takes the first branch: it returns what the three current keys
  hold and the very storage it was given, with no \<open>setItem\<close> call, so the stored products
  text is untouched. The first run returns in each of its three branches: with the
  stored array when the products key holds one (the empty array included); after calling
  \<open>setItem\<close> for the migrated products and history when the products key gives nothing
  truthy, the legacy key holds an array and no legacy entry makes the conversion throw;
  and after calling \<open>setItem\<close> for a fresh state when the legacy key gives no array
  either.
\<close>

theorem migrateIfNeeded_twice:
  "(migrateIfNeeded P e ls = Inr (b, ls')
      \<and> (truthy (loadJSON e ls LS_products JNull)
           \<or> \<not> setItem_throws e LS_products (stringify (products b)))
      \<and> \<not> getItem_throws e' LS_products \<longrightarrow>
      (\<exists>v. items ls' LS_products = Some (Json v) \<and> truthy v)
      \<and> migrateIfNeeded P' e' ls' =
          Inr (\<lparr>products = loadJSON e' ls' LS_products JNull,
                settings = nullish (loadJSON e' ls' LS_settings JNull) (JObj DEFAULT_SETTINGS),
                history0 = nullish (loadJSON e' ls' LS_history JNull) (JArr [])\<rparr>, ls'))
   \<and> (\<not> getItem_throws e LS_products \<and> items ls LS_products = Some (Json (JArr xs)) \<longrightarrow>
        migrateIfNeeded P e ls =
          Inr (\<lparr>products = JArr xs,
                settings = nullish (loadJSON e ls LS_settings JNull) (JObj DEFAULT_SETTINGS),
                history0 = nullish (loadJSON e ls LS_history JNull) (JArr [])\<rparr>, ls))
   \<and> (\<not> truthy (loadJSON e ls LS_products JNull) \<and> loadJSON e ls LS_legacySaved JNull = JArr xs
        \<and> migrate_entries P e 0 xs = Inr ys \<longrightarrow>
        migrateIfNeeded P e ls =
          Inr (\<lparr>products = JArr ys, settings = JObj DEFAULT_SETTINGS,
                history0 = or_else (loadJSON e ls LS_legacyHistory (JArr [])) (JArr [])\<rparr>,
               saveJSON e LS_history (or_else (loadJSON e ls LS_legacyHistory (JArr [])) (JArr []))
                 (saveJSON e LS_products (JArr ys) ls)))
   \<and> (\<not> truthy (loadJSON e ls LS_products JNull) \<and> (\<forall>zs. loadJSON e ls LS_legacySaved JNull \<noteq> JArr zs) \<longrightarrow>
        migrateIfNeeded P e ls =
          Inr (\<lparr>products = JArr [], settings = JObj DEFAULT_SETTINGS, history0 = JArr []\<rparr>,
               saveJSON e LS_history (JArr [])
                 (saveJSON e LS_settings (JObj DEFAULT_SETTINGS) (saveJSON e LS_products (JArr []) ls))))"
proof (intro conjI impI)
  assume a: "migrateIfNeeded P e ls = Inr (b, ls')
      \<and> (truthy (loadJSON e ls LS_products JNull)
           \<or> \<not> setItem_throws e LS_products (stringify (products b)))
      \<and> \<not> getItem_throws e' LS_products"
  then obtain v where v: "items ls' LS_products = Some (Json v)" "truthy v"
    using migrateIfNeeded_leaves_products by blast
  then show "\<exists>v. items ls' LS_products = Some (Json v) \<and> truthy v" by blast
  from a v have "truthy (loadJSON e' ls' LS_products JNull)"
    by (simp add: loadJSON_truthy)
  then show "migrateIfNeeded P' e' ls' =
          Inr (\<lparr>products = loadJSON e' ls' LS_products JNull,
                settings = nullish (loadJSON e' ls' LS_settings JNull) (JObj DEFAULT_SETTINGS),
                history0 = nullish (loadJSON e' ls' LS_history JNull) (JArr [])\<rparr>, ls')"
    by (rule migrateIfNeeded_current)
next
  assume "\<not> getItem_throws e LS_products \<and> items ls LS_products = Some (Json (JArr xs))"
  then have "loadJSON e ls LS_products JNull = JArr xs"
    by (simp add: loadJSON_truthy)
  then show "migrateIfNeeded P e ls =
          Inr (\<lparr>products = JArr xs,
                settings = nullish (loadJSON e ls LS_settings JNull) (JObj DEFAULT_SETTINGS),
                history0 = nullish (loadJSON e ls LS_history JNull) (JArr [])\<rparr>, ls)"
    using migrateIfNeeded_current [of e ls P] by simp
next
  assume "\<not> truthy (loadJSON e ls LS_products JNull) \<and> loadJSON e ls LS_legacySaved JNull = JArr xs
        \<and> migrate_entries P e 0 xs = Inr ys"
  then show "migrateIfNeeded P e ls =
          Inr (\<lparr>products = JArr ys, settings = JObj DEFAULT_SETTINGS,
                history0 = or_else (loadJSON e ls LS_legacyHistory (JArr [])) (JArr [])\<rparr>,
               saveJSON e LS_history (or_else (loadJSON e ls LS_legacyHistory (JArr [])) (JArr []))
                 (saveJSON e LS_products (JArr ys) ls))"
    by (simp add: migrateIfNeeded_legacy)
next
  assume "\<not> truthy (loadJSON e ls LS_products JNull) \<and> (\<forall>zs. loadJSON e ls LS_legacySaved JNull \<noteq> JArr zs)"
  then show "migrateIfNeeded P e ls =
          Inr (\<lparr>products = JArr [], settings = JObj DEFAULT_SETTINGS, history0 = JArr []\<rparr>,
               saveJSON e LS_history (JArr [])
                 (saveJSON e LS_settings (JObj DEFAULT_SETTINGS) (saveJSON e LS_products (JArr []) ls)))"
    by (simp add: migrateIfNeeded_fresh)
qed

text \<open>A legacy entry whose id is an object with a property \<open>toString\<close> makes the run throw.\<close>

lemma toMulebuy_throws:
  "toMulebuy P (JStr s) (JObj [(''toString'', JNull)]) JUndefined = Inl TypeError"
  by (simp add: toMulebuy_def or_else_def DEFAULT_SETTINGS_def)

lemma decimal_0: "decimal 0 = ''0''"
  by code_simp

lemma sample_migrate_entries:
  "migrate_entries sample_platform (sample_env 0) 0
     [JObj [(''shop_type'', JStr ''weidian''), (''id'', JStr ''12'')]] = Inr [migrated_sample]"
  by (simp add: migrate_entry_def toMulebuy_def or_else_def DEFAULT_SETTINGS_def sample_env_def
      migrated_sample_def trim_default_ref decimal_0)

text \<open>
  The claim as stated fails when the store refuses the writes of the first run, which
  \<open>saveJSON\<close> swallows. On the empty storage such a run returns the fresh state and leaves
  the products key absent; the second run, served by the store, does not find the key,
  initializes again and writes it.
\<close>

theorem migrateIfNeeded_full_store_counterexample:
  "migrateIfNeeded sample_platform (full_store_env 0) empty_storage =
     Inr (\<lparr>products = JArr [], settings = JObj DEFAULT_SETTINGS, history0 = JArr []\<rparr>,
          empty_storage\<lparr>setItem_log := [LS_products, LS_settings, LS_history]\<rparr>)
   \<and> items (empty_storage\<lparr>setItem_log := [LS_products, LS_settings, LS_history]\<rparr>) LS_products = None
   \<and> map_sum id (\<lambda>r. (fst r, items (snd r) LS_products, setItem_log (snd r)))
        (migrateIfNeeded sample_platform (sample_env 0)
           (empty_storage\<lparr>setItem_log := [LS_products, LS_settings, LS_history]\<rparr>)) =
     Inr (\<lparr>products = JArr [], settings = JObj DEFAULT_SETTINGS, history0 = JArr []\<rparr>,
          Some (Json (JArr [])),
          [LS_products, LS_settings, LS_history, LS_products, LS_settings, LS_history])"
  by (simp add: migrateIfNeeded_def loadJSON_def saveJSON_def stringify_def full_store_env_def
      sample_env_def empty_storage_def
      LS_products_def LS_settings_def LS_history_def LS_legacySaved_def LS_legacyHistory_def)

theorem migrateIfNeeded_twice_witness:
  "migrateIfNeeded sample_platform (sample_env 0) empty_storage =
     Inr (\<lparr>products = JArr [], settings = JObj DEFAULT_SETTINGS, history0 = JArr []\<rparr>,
          saveJSON (sample_env 0) LS_history (JArr [])
            (saveJSON (sample_env 0) LS_settings (JObj DEFAULT_SETTINGS)
               (saveJSON (sample_env 0) LS_products (JArr []) empty_storage)))
   \<and> migrateIfNeeded sample_platform (sample_env 7)
        (saveJSON (sample_env 0) LS_history (JArr [])
            (saveJSON (sample_env 0) LS_settings (JObj DEFAULT_SETTINGS)
               (saveJSON (sample_env 0) LS_products (JArr []) empty_storage))) =
     Inr (\<lparr>products = JArr [], settings = JObj DEFAULT_SETTINGS, history0 = JArr []\<rparr>,
          saveJSON (sample_env 0) LS_history (JArr [])
            (saveJSON (sample_env 0) LS_settings (JObj DEFAULT_SETTINGS)
               (saveJSON (sample_env 0) LS_products (JArr []) empty_storage)))
   \<and> migrateIfNeeded sample_platform (sample_env 0) legacy_storage =
     Inr (\<lparr>products = JArr [migrated_sample], settings = JObj DEFAULT_SETTINGS, history0 = JArr []\<rparr>,
          saveJSON (sample_env 0) LS_history (JArr [])
            (saveJSON (sample_env 0) LS_products (JArr [migrated_sample]) legacy_storage))
   \<and> migrateIfNeeded sample_platform (sample_env 7)
        (saveJSON (sample_env 0) LS_history (JArr [])
           (saveJSON (sample_env 0) LS_products (JArr [migrated_sample]) legacy_storage)) =
     Inr (\<lparr>products = JArr [migrated_sample], settings = JObj DEFAULT_SETTINGS, history0 = JArr []\<rparr>,
          saveJSON (sample_env 0) LS_history (JArr [])
            (saveJSON (sample_env 0) LS_products (JArr [migrated_sample]) legacy_storage))
   \<and> migrateIfNeeded sample_platform (sample_env 0) current_storage =
     Inr (\<lparr>products = JArr [], settings = JObj DEFAULT_SETTINGS, history0 = JArr []\<rparr>, current_storage)"
proof -
  let ?P = sample_platform
  let ?e = "sample_env 0"
  let ?fresh = "saveJSON ?e LS_history (JArr [])
            (saveJSON ?e LS_settings (JObj DEFAULT_SETTINGS) (saveJSON ?e LS_products (JArr []) empty_storage))"
  let ?migrated = "saveJSON ?e LS_history (JArr []) (saveJSON ?e LS_products (JArr [migrated_sample]) legacy_storage)"
  note k = LS_products_def LS_settings_def LS_history_def LS_legacySaved_def LS_legacyHistory_def
  have g: "\<not> getItem_throws (sample_env n) key" "\<not> setItem_throws (sample_env n) key v" for n key v
    by (simp_all add: sample_env_def)
  have e0: "\<not> truthy (loadJSON ?e empty_storage LS_products JNull)
      \<and> (\<forall>zs. loadJSON ?e empty_storage LS_legacySaved JNull \<noteq> JArr zs)"
    by (simp add: loadJSON_def empty_storage_def)
  have l0: "\<not> truthy (loadJSON ?e legacy_storage LS_products JNull)
      \<and> loadJSON ?e legacy_storage LS_legacySaved JNull = JArr [JObj [(''shop_type'', JStr ''weidian''), (''id'', JStr ''12'')]]
      \<and> or_else (loadJSON ?e legacy_storage LS_legacyHistory (JArr [])) (JArr []) = JArr []"
    by (simp add: k g loadJSON_def legacy_storage_def nullish_def or_else_def)
  have c0: "items current_storage LS_products = Some (Json (JArr []))
      \<and> loadJSON ?e current_storage LS_settings JNull = JNull
      \<and> loadJSON ?e current_storage LS_history JNull = JNull"
    by (simp add: k loadJSON_def current_storage_def)
  have 1: "migrateIfNeeded ?P ?e empty_storage =
     Inr (\<lparr>products = JArr [], settings = JObj DEFAULT_SETTINGS, history0 = JArr []\<rparr>, ?fresh)"
    using migrateIfNeeded_twice [where P = ?P and e = ?e and ls = empty_storage] e0
    by blast
  have 3: "migrateIfNeeded ?P ?e legacy_storage =
     Inr (\<lparr>products = JArr [migrated_sample], settings = JObj DEFAULT_SETTINGS, history0 = JArr []\<rparr>, ?migrated)"
    using migrateIfNeeded_twice [where P = ?P and e = ?e and ls = legacy_storage
        and xs = "[JObj [(''shop_type'', JStr ''weidian''), (''id'', JStr ''12'')]]" and ys = "[migrated_sample]"]
      l0 sample_migrate_entries
    by simp
  have 5: "migrateIfNeeded ?P ?e current_storage =
     Inr (\<lparr>products = JArr [], settings = JObj DEFAULT_SETTINGS, history0 = JArr []\<rparr>, current_storage)"
    using migrateIfNeeded_twice [where P = ?P and e = ?e and ls = current_storage and xs = "[]"] c0 g
    by (simp add: nullish_def)
  have j: "jsonify migrated_sample = migrated_sample"
    by (simp add: migrated_sample_def SCHEMA_VERSION_def is_finite_def is_zero_def)
  have f: "loadJSON (sample_env 7) ?fresh LS_products JNull = JArr []
      \<and> loadJSON (sample_env 7) ?fresh LS_settings JNull = JObj DEFAULT_SETTINGS
      \<and> loadJSON (sample_env 7) ?fresh LS_history JNull = JArr []"
    by (simp add: k g loadJSON_def saveJSON_def stringify_def nullish_def DEFAULT_SETTINGS_def)
  have m: "loadJSON (sample_env 7) ?migrated LS_products JNull = JArr [migrated_sample]
      \<and> loadJSON (sample_env 7) ?migrated LS_settings JNull = JNull
      \<and> loadJSON (sample_env 7) ?migrated LS_history JNull = JArr []"
    by (simp add: k g j loadJSON_def saveJSON_def stringify_def nullish_def legacy_storage_def)
       (simp add: migrated_sample_def)
  from migrateIfNeeded_twice [where P = ?P and e = ?e and ls = empty_storage
      and P' = ?P and e' = "sample_env 7" and ls' = ?fresh
      and b = "\<lparr>products = JArr [], settings = JObj DEFAULT_SETTINGS, history0 = JArr []\<rparr>"] 1 g
  have "migrateIfNeeded ?P (sample_env 7) ?fresh =
     Inr (\<lparr>products = loadJSON (sample_env 7) ?fresh LS_products JNull,
           settings = nullish (loadJSON (sample_env 7) ?fresh LS_settings JNull) (JObj DEFAULT_SETTINGS),
           history0 = nullish (loadJSON (sample_env 7) ?fresh LS_history JNull) (JArr [])\<rparr>, ?fresh)"
    by blast
  then have 2: "migrateIfNeeded ?P (sample_env 7) ?fresh =
     Inr (\<lparr>products = JArr [], settings = JObj DEFAULT_SETTINGS, history0 = JArr []\<rparr>, ?fresh)"
    using f by (simp add: nullish_def)
  from migrateIfNeeded_twice [where P = ?P and e = ?e and ls = legacy_storage
      and P' = ?P and e' = "sample_env 7" and ls' = ?migrated
      and b = "\<lparr>products = JArr [migrated_sample], settings = JObj DEFAULT_SETTINGS, history0 = JArr []\<rparr>"] 3 g
  have "migrateIfNeeded ?P (sample_env 7) ?migrated =
     Inr (\<lparr>products = loadJSON (sample_env 7) ?migrated LS_products JNull,
           settings = nullish (loadJSON (sample_env 7) ?migrated LS_settings JNull) (JObj DEFAULT_SETTINGS),
           history0 = nullish (loadJSON (sample_env 7) ?migrated LS_history JNull) (JArr [])\<rparr>, ?migrated)"
    by blast
  then have 4: "migrateIfNeeded ?P (sample_env 7) ?migrated =
     Inr (\<lparr>products = JArr [migrated_sample], settings = JObj DEFAULT_SETTINGS, history0 = JArr []\<rparr>, ?migrated)"
    using m by (simp add: nullish_def)
  from 1 2 3 4 5 show ?thesis by blast
qed

section \<open>The price comparator\<close>

lemma Number_samples:
  "Number_of_string ''abc'' = NaN"
  "Number_of_string ''5'' = Fin 5"
  "Number_of_string ''3'' = Fin 3"
  "Number_of_string ''0'' = Fin 0"
  by code_simp+

lemma price_number_samples:
  "price_number (sample_product u l ts ''abc'') = NaN"
  "price_number (sample_product u l ts ''5'') = Fin 5"
  "price_number (sample_product u l ts ''3'') = Fin 3"
  "price_number (sample_product u l ts ''0'') = Fin 0"
  "price_number (sample_product u l ts []) = Fin 0"
  by (simp_all add: price_number_def sample_product_def Number_samples)

text \<open>
  Claim C3, at the input where the code departs from it. For the two price keys the
  comparator is the difference of the two price numbers, and the empty price counts as
  0. A price that is not empty and not numeric, such as \<open>abc\<close>, is not turned into 0: its
  number is \<open>NaN\<close>, the comparator returns \<open>NaN\<close> against every other product, and the
  sort reads that as a tie. So the product priced \<open>abc\<close> ties with the products priced 5
  and 3, although these two do not tie with each other, while a product priced 0, or
  with the empty price, comes before the one priced 5.
\<close>

theorem bySort_price_not_a_number:
  "bySort P ''price_asc'' a b = minus_num (price_number a) (price_number b)
   \<and> bySort P ''price_desc'' a b = minus_num (price_number b) (price_number a)
   \<and> price_number (a\<lparr>price := []\<rparr>) = Fin 0
   \<and> Number_of_string ''abc'' = NaN
   \<and> minus_num NaN y = NaN \<and> minus_num x NaN = NaN
   \<and> bySort P ''price_asc'' (sample_product ''u1'' ''Wishlist'' [] ''abc'') (sample_product ''u2'' ''Wishlist'' [] ''5'') = NaN
   \<and> bySort P ''price_desc'' (sample_product ''u1'' ''Wishlist'' [] ''abc'') (sample_product ''u2'' ''Wishlist'' [] ''5'') = NaN
   \<and> SortCompare (bySort P ''price_asc'') (sample_product ''u1'' ''Wishlist'' [] ''abc'')
        (sample_product ''u2'' ''Wishlist'' [] ''5'') = Fin 0
   \<and> SortCompare (bySort P ''price_asc'') (sample_product ''u1'' ''Wishlist'' [] ''abc'')
        (sample_product ''u3'' ''Wishlist'' [] ''3'') = Fin 0
   \<and> SortCompare (bySort P ''price_asc'') (sample_product ''u3'' ''Wishlist'' [] ''3'')
        (sample_product ''u2'' ''Wishlist'' [] ''5'') = Fin (- 2)
   \<and> SortCompare (bySort P ''price_asc'') (sample_product ''u1'' ''Wishlist'' [] ''0'')
        (sample_product ''u2'' ''Wishlist'' [] ''5'') = Fin (- 5)
   \<and> SortCompare (bySort P ''price_asc'') (sample_product ''u1'' ''Wishlist'' [] [])
        (sample_product ''u2'' ''Wishlist'' [] ''5'') = Fin (- 5)
   \<and> SortCompare (bySort P ''price_asc'') (sample_product ''u1'' ''Wishlist'' [] [])
        (sample_product ''u2'' ''Wishlist'' [] []) = Fin 0"
  by (simp add: bySort_def SortCompare_def price_number_samples Number_samples)
     (cases x; simp add: price_number_def)

section \<open>Parsing, then rendering\<close>

text \<open>
  Property X1. What \<open>parseShopUrl\<close> returns is one of the two shop types with an item id
  that is not empty, and \<open>toMulebuy\<close> renders the pair, with any referral code, into a
  URL that carries that shop type and that id.
\<close>

theorem parse_then_render:
  "parseShopUrl P (Some raw) = Inr (shop, i) \<longrightarrow>
     (shop = ''weidian'' \<or> shop = ''taobao'') \<and> i \<noteq> []
     \<and> toMulebuy P (JStr shop) (JStr i) (JStr rf) =
         Inr (''https://mulebuy.com/product/?shop_type='' @ shop @ ''&id='' @ i @ ''&ref=''
              @ trim (if rf = [] then ''200084174'' else rf))"
  by (auto simp: parseShopUrl_def toMulebuy_Str split: option.splits if_splits)

theorem parse_then_render_witness:
  "parseShopUrl sample_platform (Some ''https://weidian.com/item.html?itemID=123'') = Inr (''weidian'', ''123'')
   \<and> toMulebuy sample_platform (JStr ''weidian'') (JStr ''123'') (JStr ''R9'') =
       Inr ''https://mulebuy.com/product/?shop_type=weidian&id=123&ref=R9''"
  using parse_then_render [of sample_platform "''https://weidian.com/item.html?itemID=123''"
      "''weidian''" "''123''" "''R9''"] sample_parse
  by (simp add: trim_R9)

end
